theory Spec2Isabelle
  imports Complex_Main
begin

section \<open>JavaScript values the services compute with\<close>

text \<open>
  Values thrown by the code. \<open>JsError name message stack\<close> is a plain \<open>Error\<close> instance,
  \<open>AppError message statusCode code stack\<close> is the class of \<open>error.middleware.ts\<close> (a
  subclass of \<open>Error\<close>), \<open>NonError\<close> is any thrown value that is not an \<open>Error\<close> instance.
  The stack of an error starts at the place of the \<open>new\<close> expression that created it; the
  model keeps that place, the module and the line of the expression in it, and a rethrown
  error keeps its stack. The module \<open>product.service.ts\<close> is the part of \<open>src/LOCAL_SETUP.md\<close>
  that starts at line 303 there, so its line 205 is line 507 of that file.
\<close>

datatype thrown =
    JsError string string string
  | AppError string nat string string
  | NonError

fun instanceof_Error :: "thrown \<Rightarrow> bool" where
  "instanceof_Error (JsError n m t) = True"
| "instanceof_Error (AppError m s c t) = True"
| "instanceof_Error NonError = False"

fun instanceof_AppError :: "thrown \<Rightarrow> bool" where
  "instanceof_AppError (AppError m s c t) = True"
| "instanceof_AppError e = False"

fun error_name :: "thrown \<Rightarrow> string" where
  "error_name (JsError n m t) = n"
| "error_name (AppError m s c t) = ''Error''"
| "error_name NonError = []"

fun error_message :: "thrown \<Rightarrow> string" where
  "error_message (JsError n m t) = m"
| "error_message (AppError m s c t) = m"
| "error_message NonError = []"


text \<open>\<open>new Error(message)\<close> and \<open>new AppError(message, statusCode, code)\<close> at a place of the
  code; the constructor of \<open>AppError\<close> replaces a falsy code by \<open>INTERNAL_ERROR\<close>.\<close>

definition new_Error :: "string \<Rightarrow> string \<Rightarrow> thrown" where
  "new_Error m place = JsError ''Error'' m place"

definition new_AppError :: "string \<Rightarrow> nat \<Rightarrow> string \<Rightarrow> string \<Rightarrow> thrown" where
  "new_AppError m s c place = AppError m s (if c = [] then ''INTERNAL_ERROR'' else c) place"

text \<open>
  A JavaScript number as far as the pagination arithmetic needs it: a finite value, the two
  infinities and NaN. Counts, page numbers and page sizes are integers (SQL \<open>INT\<close>), for
  which the floating-point quotient followed by \<open>Math.ceil\<close> is the exact ceiling.
\<close>

datatype js_number = Finite rat | PosInfinity | NegInfinity | NaN

definition js_divide :: "int \<Rightarrow> int \<Rightarrow> js_number" where
  "js_divide a b =
     (if b \<noteq> 0 then Finite (of_int a / of_int b)
      else if 0 < a then PosInfinity
      else if a < 0 then NegInfinity
      else NaN)"

fun Math_ceil :: "js_number \<Rightarrow> js_number" where
  "Math_ceil (Finite q) = Finite (of_int \<lceil>q\<rceil>)"
| "Math_ceil x = x"

fun js_less :: "js_number \<Rightarrow> js_number \<Rightarrow> bool" where
  "js_less (Finite a) (Finite b) = (a < b)"
| "js_less (Finite a) PosInfinity = True"
| "js_less NegInfinity (Finite b) = True"
| "js_less NegInfinity PosInfinity = True"
| "js_less x y = False"

text \<open>A \<open>Date\<close> is its epoch time; \<open>toISOString\<close> is kept symbolic.\<close>

datatype js_date = Date int

datatype iso_string = ISOString js_date

definition toISOString :: "js_date \<Rightarrow> iso_string" where
  "toISOString d = ISOString d"

text \<open>\<open>s || null\<close> on an optional string: undefined and the empty string are falsy.\<close>

fun or_null :: "string option \<Rightarrow> string option" where
  "or_null None = None"
| "or_null (Some s) = (if s = [] then None else Some s)"

fun truthy :: "string option \<Rightarrow> bool" where
  "truthy None = False"
| "truthy (Some s) = (s \<noteq> [])"



section \<open>Product types (\<open>product.types.ts\<close>)\<close>

record Product =
  product_id :: int
  name :: string
  description :: "string option"
  price :: rat
  category :: string
  createdAt :: js_date
  updatedAt :: js_date

text \<open>A row of \<open>GetProducts\<close>: \<open>Product & { TotalCount: number }\<close>.\<close>

record ProductRow = Product +
  TotalCount :: int

record UpdateProductDto =
  dto_name :: "string option"
  dto_description :: "string option"
  dto_price :: "rat option"
  dto_category :: "string option"

record ProductQuery =
  pageNumber :: "int option"
  pageSize :: "int option"
  q_category :: "string option"
  searchTerm :: "string option"
  minPrice :: "rat option"
  maxPrice :: "rat option"

record ProductResponse =
  r_id :: int
  r_name :: string
  r_description :: "string option"
  r_price :: rat
  r_category :: string
  r_createdAt :: iso_string
  r_updatedAt :: iso_string

record Pagination =
  currentPage :: int
  pg_pageSize :: int
  totalCount :: int
  totalPages :: js_number
  hasNextPage :: bool
  hasPreviousPage :: bool

record Filters =
  f_category :: "string option"
  f_searchTerm :: "string option"
  f_minPrice :: "rat option"
  f_maxPrice :: "rat option"

record ProductListResponse =
  products :: "ProductResponse list"
  pagination :: Pagination
  filters :: "Filters option"

record GetProductsInput =
  PageNumber :: int
  PageSize :: int
  Category :: "string option"
  SearchTerm :: "string option"

record UpdateProductInput =
  upd_Id :: int
  upd_Name :: string
  upd_Description :: "string option"
  upd_Price :: rat
  upd_Category :: string

section \<open>The database connection (\<open>database.connection.ts\<close>)\<close>

text \<open>
  The stored procedures run in the database engine. The store is a parameter: for each
  procedure a function from the input and the database state to the driver's outcome
  (a thrown value, or the \<open>recordset\<close>, \<open>None\<close> when the driver leaves it undefined) and the
  new state. The world carries the database state and the log of the calls issued.
  The procedures of the \<open>Users\<close> table follow with the auth types. Logging is left out.
\<close>

record CreateUserInput =
  Username :: string
  Email :: string
  PasswordHash :: string

datatype sp_call =
    Call_GetProducts GetProductsInput
  | Call_GetProductById int
  | Call_UpdateProduct UpdateProductInput
  | Call_DeleteProduct int
  | Call_CreateUser CreateUserInput
  | Call_GetUserByUsername string
  | Query_UserById int

record 's store =
  run_GetProducts :: "GetProductsInput \<Rightarrow> 's \<Rightarrow> (thrown + ProductRow list option) \<times> 's"
  run_GetProductById :: "int \<Rightarrow> 's \<Rightarrow> (thrown + Product list option) \<times> 's"
  run_UpdateProduct :: "UpdateProductInput \<Rightarrow> 's \<Rightarrow> (thrown + Product list option) \<times> 's"
  run_DeleteProduct :: "int \<Rightarrow> 's \<Rightarrow> (thrown + unit) \<times> 's"

record 's world =
  db :: 's
  calls :: "sp_call list"

text \<open>\<open>executeStoredProcedure\<close>: the call is issued, and a failure of the driver is rethrown
  as \<open>Error('Stored procedure execution failed: ' + message)\<close>.\<close>

definition driver_message :: "thrown \<Rightarrow> string" where
  "driver_message e = (if instanceof_Error e then error_message e else ''Unknown error'')"

definition executeStoredProcedure ::
  "sp_call \<Rightarrow> ('s \<Rightarrow> (thrown + 'r) \<times> 's) \<Rightarrow> 's world \<Rightarrow> (thrown + 'r) \<times> 's world" where
  "executeStoredProcedure c run w =
     (case run (db w) of
        (Inl e, s') \<Rightarrow>
          (Inl (new_Error (''Stored procedure execution failed: '' @ driver_message e)
                  ''database.connection.ts:90''),
           \<lparr>db = s', calls = calls w @ [c]\<rparr>)
      | (Inr r, s') \<Rightarrow> (Inr r, \<lparr>db = s', calls = calls w @ [c]\<rparr>))"

text \<open>\<open>executeQuery\<close> differs in the message only.\<close>

definition executeQuery ::
  "sp_call \<Rightarrow> ('s \<Rightarrow> (thrown + 'r) \<times> 's) \<Rightarrow> 's world \<Rightarrow> (thrown + 'r) \<times> 's world" where
  "executeQuery c run w =
     (case run (db w) of
        (Inl e, s') \<Rightarrow>
          (Inl (new_Error (''Query execution failed: '' @ driver_message e)
                  ''database.connection.ts:123''),
           \<lparr>db = s', calls = calls w @ [c]\<rparr>)
      | (Inr r, s') \<Rightarrow> (Inr r, \<lparr>db = s', calls = calls w @ [c]\<rparr>))"

text \<open>\<open>!result.recordset || result.recordset.length === 0\<close>\<close>

fun no_rows :: "'r list option \<Rightarrow> bool" where
  "no_rows None = True"
| "no_rows (Some rs) = (rs = [])"

section \<open>The product service (\<open>product.service.ts\<close>)\<close>

subsection \<open>getProducts\<close>

definition price_in_range :: "rat option \<Rightarrow> rat option \<Rightarrow> ProductRow \<Rightarrow> bool" where
  "price_in_range lo hi product =
     (if lo \<noteq> None \<and> price product < the lo then False
      else if hi \<noteq> None \<and> price product > the hi then False
      else True)"

definition format_product :: "ProductRow \<Rightarrow> ProductResponse" where
  "format_product product =
     \<lparr>r_id = product_id product,
      r_name = name product,
      r_description = description product,
      r_price = price product,
      r_category = category product,
      r_createdAt = toISOString (createdAt product),
      r_updatedAt = toISOString (updatedAt product)\<rparr>"

definition response_filters :: "ProductQuery \<Rightarrow> Filters option" where
  "response_filters query =
     (if truthy (q_category query) \<or> truthy (searchTerm query)
         \<or> minPrice query \<noteq> None \<or> maxPrice query \<noteq> None
      then Some \<lparr>f_category = or_null (q_category query),
                 f_searchTerm = or_null (searchTerm query),
                 f_minPrice = minPrice query,
                 f_maxPrice = maxPrice query\<rparr>
      else None)"

definition query_pageNumber :: "ProductQuery \<Rightarrow> int" where
  "query_pageNumber query = (case pageNumber query of None \<Rightarrow> 1 | Some n \<Rightarrow> n)"

definition query_pageSize :: "ProductQuery \<Rightarrow> int" where
  "query_pageSize query = (case pageSize query of None \<Rightarrow> 10 | Some n \<Rightarrow> n)"

definition getProducts_input :: "ProductQuery \<Rightarrow> GetProductsInput" where
  "getProducts_input query =
     \<lparr>PageNumber = query_pageNumber query,
      PageSize = query_pageSize query,
      Category = or_null (q_category query),
      SearchTerm = or_null (searchTerm query)\<rparr>"

definition getProducts ::
  "'s store \<Rightarrow> ProductQuery \<Rightarrow> 's world \<Rightarrow> (thrown + ProductListResponse) \<times> 's world" where
  "getProducts st query w =
     (let input = getProducts_input query
      in case executeStoredProcedure (Call_GetProducts input) (run_GetProducts st input) w of
           (Inl e, w') \<Rightarrow>
             (Inl (new_AppError ''Failed to retrieve products'' 500 ''PRODUCTS_FETCH_ERROR''
                     ''product.service.ts:105''), w')
         | (Inr recordset, w') \<Rightarrow>
             (if no_rows recordset then
                (Inr \<lparr>products = [],
                      pagination = \<lparr>currentPage = query_pageNumber query,
                                    pg_pageSize = query_pageSize query,
                                    totalCount = 0, totalPages = Finite 0,
                                    hasNextPage = False, hasPreviousPage = False\<rparr>,
                      filters = None\<rparr>, w')
              else
                (let rows = the recordset;
                     totalCount' = (if TotalCount (hd rows) = 0 then 0 else TotalCount (hd rows));
                     totalPages' = Math_ceil (js_divide totalCount' (query_pageSize query));
                     products' =
                       (if minPrice query \<noteq> None \<or> maxPrice query \<noteq> None
                        then filter (price_in_range (minPrice query) (maxPrice query)) rows
                        else rows)
                 in (Inr \<lparr>products = map format_product products',
                          pagination = \<lparr>currentPage = query_pageNumber query,
                                        pg_pageSize = query_pageSize query,
                                        totalCount = totalCount', totalPages = totalPages',
                                        hasNextPage =
                                          js_less (Finite (of_int (query_pageNumber query))) totalPages',
                                        hasPreviousPage = (1 < query_pageNumber query)\<rparr>,
                          filters = response_filters query\<rparr>, w'))))"

subsection \<open>getProductById\<close>

definition getProductById ::
  "'s store \<Rightarrow> int \<Rightarrow> 's world \<Rightarrow> (thrown + Product option) \<times> 's world" where
  "getProductById st i w =
     (case executeStoredProcedure (Call_GetProductById i) (run_GetProductById st i) w of
        (Inl e, w') \<Rightarrow>
          (Inl (new_AppError ''Failed to retrieve product'' 500 ''PRODUCT_FETCH_ERROR''
                  ''product.service.ts:132''), w')
      | (Inr recordset, w') \<Rightarrow>
          (if no_rows recordset then (Inr None, w')
           else (Inr (Some (hd (the recordset))), w')))"

subsection \<open>updateProduct\<close>

text \<open>The \<open>catch\<close> block: an \<open>AppError\<close> is rethrown, anything else is wrapped.\<close>

definition update_catch :: "thrown \<Rightarrow> thrown" where
  "update_catch e =
     (if instanceof_AppError e then e
      else new_AppError ''Failed to update product'' 500 ''PRODUCT_UPDATE_ERROR''
             ''product.service.ts:254'')"

text \<open>The merge of the existing row with the update: \<open>??\<close> on name, price and category;
  \<open>description !== undefined ? description || null : existing.description\<close>.\<close>

definition merge_update :: "int \<Rightarrow> Product \<Rightarrow> UpdateProductDto \<Rightarrow> UpdateProductInput" where
  "merge_update i existingProduct productData =
     \<lparr>upd_Id = i,
      upd_Name = (case dto_name productData of None \<Rightarrow> name existingProduct | Some n \<Rightarrow> n),
      upd_Description =
        (if dto_description productData \<noteq> None then or_null (dto_description productData)
         else description existingProduct),
      upd_Price = (case dto_price productData of None \<Rightarrow> price existingProduct | Some p \<Rightarrow> p),
      upd_Category =
        (case dto_category productData of None \<Rightarrow> category existingProduct | Some c \<Rightarrow> c)\<rparr>"

definition updateProduct ::
  "'s store \<Rightarrow> int \<Rightarrow> UpdateProductDto \<Rightarrow> 's world \<Rightarrow> (thrown + Product) \<times> 's world" where
  "updateProduct st i productData w =
     (case getProductById st i w of
        (Inl e, w1) \<Rightarrow> (Inl (update_catch e), w1)
      | (Inr None, w1) \<Rightarrow>
          (Inl (update_catch (new_AppError ''Product not found'' 404 ''PRODUCT_NOT_FOUND''
                                 ''product.service.ts:205'')), w1)
      | (Inr (Some existingProduct), w1) \<Rightarrow>
          (let input = merge_update i existingProduct productData
           in case executeStoredProcedure (Call_UpdateProduct input)
                     (run_UpdateProduct st input) w1 of
                (Inl e, w2) \<Rightarrow> (Inl (update_catch e), w2)
              | (Inr recordset, w2) \<Rightarrow>
                  (if no_rows recordset then
                     (Inl (update_catch
                        (new_AppError ''Failed to update product'' 500 ''PRODUCT_UPDATE_ERROR''
                           ''product.service.ts:229'')), w2)
                   else (Inr (hd (the recordset)), w2))))"

subsection \<open>deleteProduct\<close>

definition delete_catch :: "thrown \<Rightarrow> thrown" where
  "delete_catch e =
     (if instanceof_AppError e then e
      else new_AppError ''Failed to delete product'' 500 ''PRODUCT_DELETE_ERROR''
             ''product.service.ts:294'')"

definition deleteProduct ::
  "'s store \<Rightarrow> int \<Rightarrow> 's world \<Rightarrow> (thrown + unit) \<times> 's world" where
  "deleteProduct st i w =
     (case getProductById st i w of
        (Inl e, w1) \<Rightarrow> (Inl (delete_catch e), w1)
      | (Inr None, w1) \<Rightarrow>
          (Inl (delete_catch (new_AppError ''Product not found'' 404 ''PRODUCT_NOT_FOUND''
                                 ''product.service.ts:272'')), w1)
      | (Inr (Some existingProduct), w1) \<Rightarrow>
          (case executeStoredProcedure (Call_DeleteProduct i) (run_DeleteProduct st i) w1 of
             (Inl e, w2) \<Rightarrow> (Inl (delete_catch e), w2)
           | (Inr u, w2) \<Rightarrow> (Inr (), w2)))"

section \<open>The stored procedures (\<open>schema.sql\<close>)\<close>

text \<open>
  The stored procedures over the \<open>Products\<close> table, a list of rows. String comparison
  follows the collation of the database, so the equality on categories and the \<open>LIKE\<close>
  match of the search term are parameters; \<open>now\<close> is \<open>GETUTCDATE()\<close>. \<open>RAISERROR\<close> and
  the engine's errors reach the driver as a \<open>RequestError\<close>. \<open>ORDER BY\<close> leaves the order
  of rows with equal \<open>createdAt\<close> open; here they keep the order of the table.
\<close>

definition epoch :: "js_date \<Rightarrow> int" where
  "epoch d = (case d of Date t \<Rightarrow> t)"

definition sql_where ::
  "(string \<Rightarrow> string \<Rightarrow> bool) \<Rightarrow> (string option \<Rightarrow> string \<Rightarrow> bool) \<Rightarrow> GetProductsInput
     \<Rightarrow> Product \<Rightarrow> bool" where
  "sql_where eq like inp p =
     ((Category inp = None \<or> eq (category p) (the (Category inp)))
      \<and> (SearchTerm inp = None \<or> like (Some (name p)) (the (SearchTerm inp))
           \<or> like (description p) (the (SearchTerm inp))))"

definition with_TotalCount :: "int \<Rightarrow> Product \<Rightarrow> ProductRow" where
  "with_TotalCount n p =
     \<lparr>product_id = product_id p, name = name p, description = description p,
      price = price p, category = category p, createdAt = createdAt p,
      updatedAt = updatedAt p, TotalCount = n\<rparr>"

definition sql_GetProducts ::
  "(string \<Rightarrow> string \<Rightarrow> bool) \<Rightarrow> (string option \<Rightarrow> string \<Rightarrow> bool) \<Rightarrow> GetProductsInput
     \<Rightarrow> Product list \<Rightarrow> (thrown + ProductRow list option) \<times> Product list" where
  "sql_GetProducts eq like inp tbl =
     (let offset = (PageNumber inp - 1) * PageSize inp;
          matching = filter (sql_where eq like inp) tbl;
          ordered = sort_key (\<lambda>p. - epoch (createdAt p)) matching
      in if offset < - 2147483648 \<or> 2147483647 < offset then
           (Inl (JsError ''RequestError'' ''Arithmetic overflow error converting expression to data type int.'' ''mssql''), tbl)
         else if offset < 0 then
           (Inl (JsError ''RequestError'' ''The offset specified in a OFFSET clause may not be negative.'' ''mssql''), tbl)
         else if PageSize inp \<le> 0 then
           (Inl (JsError ''RequestError'' ''The number of rows provided for a FETCH clause must be greater then zero.'' ''mssql''), tbl)
         else
           (Inr (Some (map (with_TotalCount (int (length matching)))
                         (take (nat (PageSize inp)) (drop (nat offset) ordered)))), tbl))"

definition sql_GetProductById ::
  "int \<Rightarrow> Product list \<Rightarrow> (thrown + Product list option) \<times> Product list" where
  "sql_GetProductById i tbl = (Inr (Some (filter (\<lambda>p. product_id p = i) tbl)), tbl)"

definition sql_UpdateProduct ::
  "js_date \<Rightarrow> UpdateProductInput \<Rightarrow> Product list \<Rightarrow> (thrown + Product list option) \<times> Product list" where
  "sql_UpdateProduct now inp tbl =
     (if \<not> (\<exists>p \<in> set tbl. product_id p = upd_Id inp) then
        (Inl (JsError ''RequestError'' ''Product not found'' ''mssql''), tbl)
      else
        (let tbl' = map (\<lambda>p. if product_id p = upd_Id inp
                              then p\<lparr>name := upd_Name inp, description := upd_Description inp,
                                     price := upd_Price inp, category := upd_Category inp,
                                     updatedAt := now\<rparr>
                              else p) tbl
         in sql_GetProductById (upd_Id inp) tbl'))"

definition sql_DeleteProduct ::
  "int \<Rightarrow> Product list \<Rightarrow> (thrown + unit) \<times> Product list" where
  "sql_DeleteProduct i tbl =
     (if \<not> (\<exists>p \<in> set tbl. product_id p = i) then
        (Inl (JsError ''RequestError'' ''Product not found'' ''mssql''), tbl)
      else (Inr (), filter (\<lambda>p. product_id p \<noteq> i) tbl))"

definition sql_store ::
  "(string \<Rightarrow> string \<Rightarrow> bool) \<Rightarrow> (string option \<Rightarrow> string \<Rightarrow> bool) \<Rightarrow> js_date
     \<Rightarrow> (Product list) store" where
  "sql_store eq like now =
     \<lparr>run_GetProducts = sql_GetProducts eq like,
      run_GetProductById = sql_GetProductById,
      run_UpdateProduct = sql_UpdateProduct now,
      run_DeleteProduct = sql_DeleteProduct\<rparr>"

section \<open>Auth types (\<open>auth.types.ts\<close>)\<close>

text \<open>
  A JavaScript object is the list of its keys with their values, in the order the object
  literal writes them. Numbers are rationals.
\<close>

datatype json =
    JNull
  | JBool bool
  | JNumber rat
  | JString string
  | JDate js_date
  | JIsoString iso_string
  | JArray "json list"
  | JObject "(string \<times> json) list"

record User =
  user_id :: int
  username :: string
  email :: string
  passwordHash :: "string option"
  user_createdAt :: js_date
  user_updatedAt :: js_date

record CreateUserDto =
  reg_username :: string
  reg_email :: string
  reg_password :: string

record LoginDto =
  login_username :: string
  login_password :: string

record JwtPayload =
  userId :: int
  jwt_username :: string
  jwt_email :: string
  iat :: "int option"
  exp_time :: "int option"

record AuthResponse =
  auth_user :: "(string \<times> json) list"
  token :: string
  expiresIn :: string

record AuthConfig =
  jwtSecret :: string
  jwtExpiresIn :: string
  saltRounds :: nat

text \<open>
  The libraries \<open>bcryptjs\<close> and \<open>jsonwebtoken\<close> are parameters: each function returns its
  result or the value it throws. \<open>jwt_verify\<close> stands for the verification at the time of
  the request.
\<close>

record crypto =
  bcrypt_hash :: "string \<Rightarrow> nat \<Rightarrow> thrown + string"
  bcrypt_compare :: "string \<Rightarrow> string \<Rightarrow> thrown + bool"
  jwt_sign :: "JwtPayload \<Rightarrow> string \<Rightarrow> string \<Rightarrow> thrown + string"
  jwt_verify :: "string \<Rightarrow> string \<Rightarrow> thrown + JwtPayload"

text \<open>The procedures and the query on the \<open>Users\<close> table.\<close>

record 's user_store =
  run_CreateUser :: "CreateUserInput \<Rightarrow> 's \<Rightarrow> (thrown + User list option) \<times> 's"
  run_GetUserByUsername :: "string \<Rightarrow> 's \<Rightarrow> (thrown + User list option) \<times> 's"
  query_UserById :: "int \<Rightarrow> 's \<Rightarrow> (thrown + User list option) \<times> 's"

section \<open>The auth service (\<open>auth.service.ts\<close>)\<close>

text \<open>\<open>haystack.includes(needle)\<close>\<close>

fun str_includes :: "string \<Rightarrow> string \<Rightarrow> bool" where
  "str_includes [] needle = (needle = [])"
| "str_includes (c # cs) needle = (take (length needle) (c # cs) = needle \<or> str_includes cs needle)"

text \<open>The object literal both \<open>register\<close> and \<open>login\<close> return as \<open>user\<close>.\<close>

definition user_object :: "User \<Rightarrow> (string \<times> json) list" where
  "user_object u =
     [(''id'', JNumber (of_int (user_id u))),
      (''username'', JString (username u)),
      (''email'', JString (email u)),
      (''createdAt'', JDate (user_createdAt u)),
      (''updatedAt'', JDate (user_updatedAt u))]"

definition generateToken :: "crypto \<Rightarrow> AuthConfig \<Rightarrow> int \<Rightarrow> string \<Rightarrow> string \<Rightarrow> thrown + string" where
  "generateToken lib cfg uid uname mail =
     jwt_sign lib \<lparr>userId = uid, jwt_username = uname, jwt_email = mail, iat = None, exp_time = None\<rparr>
       (jwtSecret cfg) (jwtExpiresIn cfg)"

definition register_catch :: "thrown \<Rightarrow> thrown" where
  "register_catch e =
     (if instanceof_Error e then
        (if str_includes (error_message e) ''already exists''
         then new_Error ''Username or email already exists'' ''auth.service.ts:66''
         else e)
      else new_Error ''Registration failed'' ''auth.service.ts:71'')"

definition register ::
  "crypto \<Rightarrow> AuthConfig \<Rightarrow> 's user_store \<Rightarrow> CreateUserDto \<Rightarrow> 's world
     \<Rightarrow> (thrown + AuthResponse) \<times> 's world" where
  "register lib cfg st userData w =
     (case bcrypt_hash lib (reg_password userData) (saltRounds cfg) of
        Inl e \<Rightarrow> (Inl (register_catch e), w)
      | Inr hash \<Rightarrow>
          (let input = \<lparr>Username = reg_username userData, Email = reg_email userData,
                        PasswordHash = hash\<rparr>
           in case executeStoredProcedure (Call_CreateUser input) (run_CreateUser st input) w of
                (Inl e, w1) \<Rightarrow> (Inl (register_catch e), w1)
              | (Inr recordset, w1) \<Rightarrow>
                  (if no_rows recordset then
                     (Inl (register_catch (new_Error ''Failed to create user'' ''auth.service.ts:36'')), w1)
                   else
                     (let newUser = hd (the recordset)
                      in case generateToken lib cfg (user_id newUser) (username newUser)
                                (email newUser) of
                           Inl e \<Rightarrow> (Inl (register_catch e), w1)
                         | Inr tok \<Rightarrow>
                             (Inr \<lparr>auth_user = user_object newUser, token = tok,
                                   expiresIn = jwtExpiresIn cfg\<rparr>, w1)))))"

definition login_catch :: "thrown \<Rightarrow> thrown" where
  "login_catch e =
     (if instanceof_Error e \<and> error_message e = ''Invalid credentials'' then e
      else new_Error ''Login failed'' ''auth.service.ts:131'')"

definition login ::
  "crypto \<Rightarrow> AuthConfig \<Rightarrow> 's user_store \<Rightarrow> LoginDto \<Rightarrow> 's world
     \<Rightarrow> (thrown + AuthResponse) \<times> 's world" where
  "login lib cfg st loginData w =
     (case executeStoredProcedure (Call_GetUserByUsername (login_username loginData))
             (run_GetUserByUsername st (login_username loginData)) w of
        (Inl e, w1) \<Rightarrow> (Inl (login_catch e), w1)
      | (Inr recordset, w1) \<Rightarrow>
          (if no_rows recordset then
             (Inl (login_catch (new_Error ''Invalid credentials'' ''auth.service.ts:89'')), w1)
           else
             (let user = hd (the recordset)
              in if \<not> truthy (passwordHash user) then
                   (Inl (login_catch (new_Error ''Invalid user data'' ''auth.service.ts:96'')), w1)
                 else
                   (case bcrypt_compare lib (login_password loginData) (the (passwordHash user)) of
                      Inl e \<Rightarrow> (Inl (login_catch e), w1)
                    | Inr isValidPassword \<Rightarrow>
                        (if \<not> isValidPassword then
                           (Inl (login_catch (new_Error ''Invalid credentials''
                                                ''auth.service.ts:101'')), w1)
                         else
                           (case generateToken lib cfg (user_id user) (username user)
                                   (email user) of
                              Inl e \<Rightarrow> (Inl (login_catch e), w1)
                            | Inr tok \<Rightarrow>
                                (Inr \<lparr>auth_user = user_object user, token = tok,
                                      expiresIn = jwtExpiresIn cfg\<rparr>, w1)))))))"

definition verifyToken :: "crypto \<Rightarrow> AuthConfig \<Rightarrow> string \<Rightarrow> thrown + JwtPayload" where
  "verifyToken lib cfg tok =
     (case jwt_verify lib tok (jwtSecret cfg) of
        Inr decoded \<Rightarrow> Inr decoded
      | Inl e \<Rightarrow>
          (if instanceof_Error e \<and> error_name e = ''TokenExpiredError'' then
             Inl (new_Error ''Token expired'' ''auth.service.ts:147'')
           else if instanceof_Error e \<and> error_name e = ''JsonWebTokenError'' then
             Inl (new_Error ''Invalid token'' ''auth.service.ts:149'')
           else Inl (new_Error ''Token verification failed'' ''auth.service.ts:153'')))"

definition getUserById :: "'s user_store \<Rightarrow> int \<Rightarrow> 's world \<Rightarrow> User option \<times> 's world" where
  "getUserById st uid w =
     (case executeQuery (Query_UserById uid) (query_UserById st uid) w of
        (Inl e, w1) \<Rightarrow> (None, w1)
      | (Inr recordset, w1) \<Rightarrow>
          (if recordset \<noteq> None \<and> 0 < length (the recordset)
           then (Some (hd (the recordset)), w1)
           else (None, w1)))"

section \<open>The authentication middleware (\<open>auth.middleware.ts\<close>)\<close>

text \<open>
  A request as the middleware chain sees it, and what one middleware does with it:
  it sends a response, or it calls \<open>next()\<close> with the request as it left it.
\<close>

record Request =
  req_headers :: "(string \<times> json) list"
  req_body :: "(string \<times> json) list"
  req_params :: "(string \<times> json) list"
  req_query :: "(string \<times> json) list"
  req_user :: "JwtPayload option"
  originalUrl :: string
  req_method :: string

datatype outcome =
    Responded nat json
  | Next Request

text \<open>\<open>req.headers.authorization\<close>\<close>

definition header_authorization :: "Request \<Rightarrow> string option" where
  "header_authorization req =
     (case map_of (req_headers req) ''authorization'' of
        Some (JString v) \<Rightarrow> Some v
      | _ \<Rightarrow> None)"

text \<open>\<open>s.split(sep)\<close> for a separator of one character.\<close>

fun split :: "char \<Rightarrow> string \<Rightarrow> string list" where
  "split sep [] = [[]]"
| "split sep (c # cs) =
     (if c = sep then [] # split sep cs
      else (case split sep cs of
              [] \<Rightarrow> [[c]]
            | part # parts \<Rightarrow> (c # part) # parts))"

definition auth_failure :: "string \<Rightarrow> string \<Rightarrow> outcome" where
  "auth_failure err msg = Responded 401 (JObject [(''error'', JString err), (''message'', JString msg)])"

definition authenticate_catch :: "thrown \<Rightarrow> outcome" where
  "authenticate_catch e =
     (let message =
            (if instanceof_Error e then
               (if error_message e = ''Token expired'' then ''Token has expired''
                else if error_message e = ''Invalid token'' then ''Invalid token provided''
                else ''Authentication failed'')
             else ''Authentication failed'')
      in auth_failure ''Authentication failed'' message)"

definition authenticate ::
  "crypto \<Rightarrow> AuthConfig \<Rightarrow> 's user_store \<Rightarrow> Request \<Rightarrow> 's world \<Rightarrow> outcome \<times> 's world" where
  "authenticate lib cfg st req w =
     (if \<not> truthy (header_authorization req) then
        (auth_failure ''Authorization header missing'' ''Access token is required'', w)
      else
        (let tokenParts = split CHR '' '' (the (header_authorization req))
         in if length tokenParts \<noteq> 2 \<or> tokenParts ! 0 \<noteq> ''Bearer'' then
              (auth_failure ''Invalid authorization format''
                 ''Authorization header must be in format: Bearer <token>'', w)
            else
              (let tok = tokenParts ! 1
               in if tok = [] then
                    (auth_failure ''Invalid token'' ''Token cannot be empty'', w)
                  else
                    (case verifyToken lib cfg tok of
                       Inl e \<Rightarrow> (authenticate_catch e, w)
                     | Inr decoded \<Rightarrow>
                         (case getUserById st (userId decoded) w of
                            (None, w1) \<Rightarrow>
                              (auth_failure ''User not found''
                                 ''The user associated with this token no longer exists'', w1)
                          | (Some user, w1) \<Rightarrow>
                              (Next (req\<lparr>req_user := Some decoded\<rparr>), w1))))))"

definition optionalAuthenticate :: "crypto \<Rightarrow> AuthConfig \<Rightarrow> Request \<Rightarrow> outcome" where
  "optionalAuthenticate lib cfg req =
     (if truthy (header_authorization req) then
        (let tokenParts = split CHR '' '' (the (header_authorization req))
         in if length tokenParts = 2 \<and> tokenParts ! 0 = ''Bearer'' then
              (let tok = tokenParts ! 1
               in if tok \<noteq> [] then
                    (case verifyToken lib cfg tok of
                       Inl e \<Rightarrow> Next req
                     | Inr decoded \<Rightarrow> Next (req\<lparr>req_user := Some decoded\<rparr>))
                  else Next req)
            else Next req)
      else Next req)"

section \<open>The verification of the library \<open>jsonwebtoken\<close>\<close>











section \<open>Validation (\<open>validation.middleware.ts\<close>, \<open>validation.schemas.ts\<close>)\<close>

subsection \<open>The schema library\<close>














subsection \<open>createProductSchema\<close>






subsection \<open>The middleware\<close>







section \<open>The error handler (\<open>error.middleware.ts\<close>) and the login controller\<close>







section \<open>The \<open>Users\<close> procedures (\<open>schema.sql\<close>)\<close>

definition without_hash :: "User \<Rightarrow> User" where
  "without_hash u = u\<lparr>passwordHash := None\<rparr>"

definition next_identity :: "User list \<Rightarrow> int" where
  "next_identity tbl = foldr max (map user_id tbl) 0 + 1"

definition sql_GetUserByUsername ::
  "(string \<Rightarrow> string \<Rightarrow> bool) \<Rightarrow> string \<Rightarrow> User list \<Rightarrow> (thrown + User list option) \<times> User list" where
  "sql_GetUserByUsername eq uname tbl = (Inr (Some (filter (\<lambda>u. eq (username u) uname) tbl)), tbl)"

definition sql_CreateUser ::
  "(string \<Rightarrow> string \<Rightarrow> bool) \<Rightarrow> js_date \<Rightarrow> CreateUserInput \<Rightarrow> User list
     \<Rightarrow> (thrown + User list option) \<times> User list" where
  "sql_CreateUser eq now inp tbl =
     (if \<exists>u \<in> set tbl. eq (username u) (Username inp) \<or> eq (email u) (Email inp) then
        (Inl (JsError ''RequestError'' ''Username or email already exists'' ''mssql''), tbl)
      else
        (let newUser = \<lparr>user_id = next_identity tbl, username = Username inp, email = Email inp,
                         passwordHash = Some (PasswordHash inp),
                         user_createdAt = now, user_updatedAt = now\<rparr>
         in (Inr (Some [without_hash newUser]), tbl @ [newUser])))"

definition sql_UserById :: "int \<Rightarrow> User list \<Rightarrow> (thrown + User list option) \<times> User list" where
  "sql_UserById uid tbl =
     (Inr (Some (map without_hash (filter (\<lambda>u. user_id u = uid) tbl))), tbl)"

definition sql_user_store :: "(string \<Rightarrow> string \<Rightarrow> bool) \<Rightarrow> js_date \<Rightarrow> (User list) user_store" where
  "sql_user_store eq now =
     \<lparr>run_CreateUser = sql_CreateUser eq now,
      run_GetUserByUsername = sql_GetUserByUsername eq,
      query_UserById = sql_UserById\<rparr>"

section \<open>Sample data (\<open>schema.sql\<close>)\<close>

text \<open>Three of the rows the schema script inserts, with creation times in the order of
  insertion, and a store running the procedures above on them.\<close>

definition coffee_maker :: Product where
  "coffee_maker =
     \<lparr>product_id = 3, name = ''Coffee Maker Deluxe'',
      description = Some ''Programmable coffee maker with built-in grinder and thermal carafe'',
      price = 14999 / 100, category = ''Appliances'',
      createdAt = Date 1000, updatedAt = Date 1000\<rparr>"

definition desk_lamp :: Product where
  "desk_lamp =
     \<lparr>product_id = 6, name = ''Desk Lamp LED'',
      description = Some ''Modern LED desk lamp with adjustable brightness and USB charging port'',
      price = 7999 / 100, category = ''Furniture'',
      createdAt = Date 2000, updatedAt = Date 2000\<rparr>"

definition protein_powder :: Product where
  "protein_powder =
     \<lparr>product_id = 7, name = ''Protein Powder Vanilla'',
      description = Some ''Premium whey protein powder, vanilla flavor, 2lbs container'',
      price = 3999 / 100, category = ''Health'',
      createdAt = Date 3000, updatedAt = Date 3000\<rparr>"

definition sample_products :: "Product list" where
  "sample_products = [coffee_maker, desk_lamp, protein_powder]"

definition sample_store :: "(Product list) store" where
  "sample_store = sql_store (=) (\<lambda>field term. False) (Date 5000)"

definition sample_world :: "(Product list) world" where
  "sample_world = \<lparr>db = sample_products, calls = []\<rparr>"

definition page_query :: "int \<Rightarrow> int \<Rightarrow> ProductQuery" where
  "page_query n sz =
     \<lparr>pageNumber = Some n, pageSize = Some sz, q_category = None, searchTerm = None,
      minPrice = None, maxPrice = None\<rparr>"

definition priced_query :: ProductQuery where
  "priced_query =
     \<lparr>pageNumber = Some 1, pageSize = Some 10, q_category = None, searchTerm = None,
      minPrice = Some 50, maxPrice = Some 100\<rparr>"

definition price_only :: UpdateProductDto where
  "price_only =
     \<lparr>dto_name = None, dto_description = None, dto_price = Some (14999 / 100),
      dto_category = None\<rparr>"

definition rename_and_clear :: UpdateProductDto where
  "rename_and_clear =
     \<lparr>dto_name = Some ''Desk Lamp'', dto_description = Some [], dto_price = None,
      dto_category = Some ''Lighting''\<rparr>"

definition describe_only :: UpdateProductDto where
  "describe_only =
     \<lparr>dto_name = None, dto_description = Some ''Dimmable'', dto_price = None,
      dto_category = None\<rparr>"

text \<open>The user the schema script inserts, and stand-ins for the libraries as the tests of
  the auth service mock them.\<close>

definition admin_user :: User where
  "admin_user =
     \<lparr>user_id = 1, username = ''admin'', email = ''admin@example.com'',
      passwordHash = Some ''$2b$10$YourHashedPasswordHere'',
      user_createdAt = Date 1000, user_updatedAt = Date 1000\<rparr>"

definition sample_user_store :: "(User list) user_store" where
  "sample_user_store = sql_user_store (=) (Date 5000)"

definition sample_user_world :: "(User list) world" where
  "sample_user_world = \<lparr>db = [admin_user], calls = []\<rparr>"

definition sample_payload :: JwtPayload where
  "sample_payload =
     \<lparr>userId = 1, jwt_username = ''admin'', jwt_email = ''admin@example.com'',
      iat = Some 1640995200, exp_time = Some 1641081600\<rparr>"

definition orphan_payload :: JwtPayload where
  "orphan_payload =
     \<lparr>userId = 42, jwt_username = ''gone'', jwt_email = ''gone@example.com'',
      iat = Some 1640995200, exp_time = Some 1641081600\<rparr>"

definition sample_crypto :: crypto where
  "sample_crypto =
     \<lparr>bcrypt_hash = (\<lambda>password rounds. Inr ''hashedPassword123''),
      bcrypt_compare =
        (\<lambda>password hash. Inr (password = ''password123'' \<and> hash = ''$2b$10$YourHashedPasswordHere'')),
      jwt_sign = (\<lambda>payload secret expires. Inr ''mock-jwt-token''),
      jwt_verify =
        (\<lambda>tok secret.
           if tok = ''valid-token'' then Inr sample_payload
           else if tok = ''orphan-token'' then Inr orphan_payload
           else if tok = ''expired-token'' then Inl (JsError ''TokenExpiredError'' ''jwt expired'' ''jsonwebtoken'')
           else Inl (JsError ''JsonWebTokenError'' ''invalid token'' ''jsonwebtoken''))\<rparr>"


definition sample_config :: AuthConfig where
  "sample_config =
     \<lparr>jwtSecret = ''test-jwt-secret-key-for-testing-only'', jwtExpiresIn = ''24h'',
      saltRounds = 12\<rparr>"

definition request_with :: "(string \<times> json) list \<Rightarrow> Request" where
  "request_with hs =
     \<lparr>req_headers = hs, req_body = [], req_params = [], req_query = [], req_user = None,
      originalUrl = ''/api/products'', req_method = ''POST''\<rparr>"

definition bearer_request :: "string \<Rightarrow> Request" where
  "bearer_request h = request_with [(''authorization'', JString h)]"

definition john_doe :: CreateUserDto where
  "john_doe =
     \<lparr>reg_username = ''johndoe'', reg_email = ''john@example.com'',
      reg_password = ''SecurePass123!''\<rparr>"

definition admin_login :: "string \<Rightarrow> LoginDto" where
  "admin_login password = \<lparr>login_username = ''admin'', login_password = password\<rparr>"








section \<open>Properties of the product service\<close>

lemma executeStoredProcedure_Inr:
  "run (db w) = (Inr r, s') \<Longrightarrow>
   executeStoredProcedure c run w = (Inr r, \<lparr>db = s', calls = calls w @ [c]\<rparr>)"
  by (simp add: executeStoredProcedure_def)

lemma Math_ceil_js_divide:
  "b \<noteq> 0 \<Longrightarrow> Math_ceil (js_divide a b) = Finite (of_int \<lceil>of_int a / (of_int b :: rat)\<rceil>)"
  by (simp add: js_divide_def)

lemma getProducts_input_bounds:
  "getProducts_input (query\<lparr>minPrice := lo, maxPrice := hi\<rparr>) = getProducts_input query"
  by (simp add: getProducts_input_def query_pageNumber_def query_pageSize_def)

lemma price_in_range_iff:
  "price_in_range lo hi p \<longleftrightarrow>
     (\<forall>l. lo = Some l \<longrightarrow> l \<le> price p) \<and> (\<forall>h. hi = Some h \<longrightarrow> price p \<le> h)"
  by (cases lo; cases hi) (auto simp: price_in_range_def)

lemma getProductById_found:
  "run_GetProductById st i (db w) = (Inr (Some (existing # rest)), s1) \<Longrightarrow>
   getProductById st i w =
     (Inr (Some existing), \<lparr>db = s1, calls = calls w @ [Call_GetProductById i]\<rparr>)"
  by (simp add: getProductById_def executeStoredProcedure_Inr)

lemma getProductById_absent:
  "run_GetProductById st i (db w) = (Inr recordset, s1) \<Longrightarrow> no_rows recordset \<Longrightarrow>
   getProductById st i w = (Inr None, \<lparr>db = s1, calls = calls w @ [Call_GetProductById i]\<rparr>)"
  by (simp add: getProductById_def executeStoredProcedure_Inr)

lemmas sample_defs =
  sample_store_def sample_world_def sample_products_def coffee_maker_def desk_lamp_def
  protein_powder_def page_query_def sql_store_def sql_GetProducts_def sql_GetProductById_def
  sql_UpdateProduct_def sql_DeleteProduct_def sql_where_def epoch_def with_TotalCount_def
  getProducts_input_def query_pageNumber_def query_pageSize_def

lemma sample_page_two:
  "run_GetProducts sample_store (getProducts_input (page_query 2 10)) (db sample_world) =
     (Inr (Some []), sample_products)"
  by (simp add: sample_defs)

lemma sample_page_one:
  "run_GetProducts sample_store (getProducts_input (page_query 1 2)) (db sample_world) =
     (Inr (Some [with_TotalCount 3 protein_powder, with_TotalCount 3 desk_lamp]), sample_products)"
  by (simp add: sample_defs)

text \<open>
  C3, as the claim states it, fails: the formula \<open>hasPreviousPage = (currentPage > 1)\<close> does
  not hold on an empty result set. Page 2 of the three sample rows is empty, and the
  response has \<open>hasPreviousPage = false\<close> with \<open>currentPage = 2\<close>.
\<close>

theorem getProducts_empty_page_counterexample:
  "fst (getProducts sample_store (page_query 2 10) sample_world) =
     Inr \<lparr>products = [],
          pagination = \<lparr>currentPage = 2, pg_pageSize = 10, totalCount = 0, totalPages = Finite 0,
                        hasNextPage = False, hasPreviousPage = False\<rparr>,
          filters = None\<rparr>
   \<and> hasPreviousPage (pagination (projr (fst (getProducts sample_store (page_query 2 10) sample_world))))
       \<noteq> (1 < currentPage (pagination (projr (fst (getProducts sample_store (page_query 2 10) sample_world)))))"
proof -
  have "fst (getProducts sample_store (page_query 2 10) sample_world) =
     Inr \<lparr>products = [],
          pagination = \<lparr>currentPage = 2, pg_pageSize = 10, totalCount = 0, totalPages = Finite 0,
                        hasNextPage = False, hasPreviousPage = False\<rparr>,
          filters = None\<rparr>"
    by (simp add: getProducts_def Let_def executeStoredProcedure_def sample_page_two)
       (simp add: page_query_def query_pageNumber_def query_pageSize_def)
  then show ?thesis by simp
qed

text \<open>
  C3 (amended): for every query descriptor, when the store returns a non-empty result set
  the pagination satisfies \<open>totalPages = ceil(totalCount / pageSize)\<close>,
  \<open>hasNextPage = (currentPage < totalPages)\<close> and \<open>hasPreviousPage = (currentPage > 1)\<close>,
  with \<open>totalCount\<close> the \<open>TotalCount\<close> column of the first row; when the store returns an empty
  result set the operation returns, without an error, an empty products array and the
  pagination \<open>totalCount = 0\<close>, \<open>totalPages = 0\<close>, \<open>hasNextPage = false\<close>,
  \<open>hasPreviousPage = false\<close>, whatever the current page.
\<close>

theorem getProducts_pagination:
  assumes "run_GetProducts st (getProducts_input query) (db w) = (Inr recordset, s')"
  shows "\<exists>resp. getProducts st query w =
           (Inr resp, \<lparr>db = s', calls = calls w @ [Call_GetProducts (getProducts_input query)]\<rparr>)
      \<and> (no_rows recordset \<longrightarrow>
           resp = \<lparr>products = [],
                   pagination = \<lparr>currentPage = query_pageNumber query,
                                 pg_pageSize = query_pageSize query,
                                 totalCount = 0, totalPages = Finite 0,
                                 hasNextPage = False, hasPreviousPage = False\<rparr>,
                   filters = None\<rparr>)
      \<and> (\<not> no_rows recordset \<longrightarrow>
           currentPage (pagination resp) = query_pageNumber query \<and>
           pg_pageSize (pagination resp) = query_pageSize query \<and>
           totalCount (pagination resp) = TotalCount (hd (the recordset)) \<and>
           totalPages (pagination resp) =
             Math_ceil (js_divide (totalCount (pagination resp)) (pg_pageSize (pagination resp))) \<and>
           (pg_pageSize (pagination resp) \<noteq> 0 \<longrightarrow>
              totalPages (pagination resp) =
                Finite (of_int \<lceil>of_int (totalCount (pagination resp))
                              / (of_int (pg_pageSize (pagination resp)) :: rat)\<rceil>)) \<and>
           hasNextPage (pagination resp) =
             js_less (Finite (of_int (currentPage (pagination resp)))) (totalPages (pagination resp)) \<and>
           hasPreviousPage (pagination resp) = (1 < currentPage (pagination resp)))"
  using assms
  by (simp add: getProducts_def Let_def executeStoredProcedure_Inr Math_ceil_js_divide)

theorem getProducts_pagination_witness:
  "run_GetProducts sample_store (getProducts_input (page_query 2 10)) (db sample_world) =
     (Inr (Some []), sample_products)
   \<and> no_rows (Some ([] :: ProductRow list))
   \<and> fst (getProducts sample_store (page_query 2 10) sample_world) =
       Inr \<lparr>products = [],
            pagination = \<lparr>currentPage = 2, pg_pageSize = 10, totalCount = 0, totalPages = Finite 0,
                          hasNextPage = False, hasPreviousPage = False\<rparr>,
            filters = None\<rparr>
   \<and> run_GetProducts sample_store (getProducts_input (page_query 1 2)) (db sample_world) =
       (Inr (Some [with_TotalCount 3 protein_powder, with_TotalCount 3 desk_lamp]), sample_products)
   \<and> \<not> no_rows (Some [with_TotalCount 3 protein_powder, with_TotalCount 3 desk_lamp])
   \<and> totalCount (pagination (projr (fst (getProducts sample_store (page_query 1 2) sample_world)))) = 3
   \<and> totalPages (pagination (projr (fst (getProducts sample_store (page_query 1 2) sample_world)))) = Finite 2
   \<and> hasNextPage (pagination (projr (fst (getProducts sample_store (page_query 1 2) sample_world))))
   \<and> \<not> hasPreviousPage (pagination (projr (fst (getProducts sample_store (page_query 1 2) sample_world))))"
  using getProducts_pagination [OF sample_page_two] getProducts_pagination [OF sample_page_one]
  apply (simp add: sample_page_two sample_page_one)
  apply (elim exE conjE)
  apply (simp add: page_query_def query_pageNumber_def query_pageSize_def with_TotalCount_def
           js_divide_def ceiling_eq_iff)
  done

text \<open>
  C4: when \<open>minPrice\<close> and/or \<open>maxPrice\<close> is supplied and the store returns a non-empty
  page, the returned items are the store's rows filtered in the service, so each has its
  price within the supplied bounds, while \<open>totalCount\<close> and \<open>totalPages\<close> come from the
  \<open>TotalCount\<close> column of the store's first row: the pagination is the one the same query
  without price bounds gets, and is not recomputed from the filtered rows.
\<close>

theorem getProducts_price_filter:
  assumes "run_GetProducts st (getProducts_input query) (db w) = (Inr (Some rows), s')"
      and "rows \<noteq> []"
      and "minPrice query \<noteq> None \<or> maxPrice query \<noteq> None"
  shows "\<exists>resp w'. getProducts st query w = (Inr resp, w')
     \<and> products resp =
         map format_product (filter (price_in_range (minPrice query) (maxPrice query)) rows)
     \<and> (\<forall>p \<in> set (products resp).
           (\<forall>lo. minPrice query = Some lo \<longrightarrow> lo \<le> r_price p) \<and>
           (\<forall>hi. maxPrice query = Some hi \<longrightarrow> r_price p \<le> hi))
     \<and> totalCount (pagination resp) = TotalCount (hd rows)
     \<and> totalPages (pagination resp) =
         Math_ceil (js_divide (TotalCount (hd rows)) (query_pageSize query))
     \<and> fst (getProducts st (query\<lparr>minPrice := None, maxPrice := None\<rparr>) w) =
         Inr (resp\<lparr>products := map format_product rows,
                   filters := response_filters (query\<lparr>minPrice := None, maxPrice := None\<rparr>)\<rparr>)"
  using assms
  apply (simp add: getProducts_def Let_def executeStoredProcedure_Inr getProducts_input_bounds)
  apply (auto simp: price_in_range_iff format_product_def query_pageNumber_def query_pageSize_def)
  done

lemma sample_priced_page:
  "run_GetProducts sample_store (getProducts_input priced_query) (db sample_world) =
     (Inr (Some [with_TotalCount 3 protein_powder, with_TotalCount 3 desk_lamp,
                 with_TotalCount 3 coffee_maker]), sample_products)"
  by (simp add: sample_defs priced_query_def)

theorem getProducts_price_filter_witness:
  "run_GetProducts sample_store (getProducts_input priced_query) (db sample_world) =
     (Inr (Some [with_TotalCount 3 protein_powder, with_TotalCount 3 desk_lamp,
                 with_TotalCount 3 coffee_maker]), sample_products)
   \<and> minPrice priced_query = Some 50 \<and> maxPrice priced_query = Some 100
   \<and> products (projr (fst (getProducts sample_store priced_query sample_world))) =
       [format_product (with_TotalCount 3 desk_lamp)]
   \<and> r_price (format_product (with_TotalCount 3 desk_lamp)) = 7999 / 100
   \<and> totalCount (pagination (projr (fst (getProducts sample_store priced_query sample_world)))) = 3
   \<and> totalPages (pagination (projr (fst (getProducts sample_store priced_query sample_world)))) = Finite 1"
proof -
  have bounds: "minPrice priced_query \<noteq> None \<or> maxPrice priced_query \<noteq> None"
    by (simp add: priced_query_def)
  have rows: "[with_TotalCount 3 protein_powder, with_TotalCount 3 desk_lamp,
               with_TotalCount 3 coffee_maker] \<noteq> []"
    by simp
  from getProducts_price_filter [OF sample_priced_page rows bounds]
  obtain resp w' where r: "getProducts sample_store priced_query sample_world = (Inr resp, w')"
    and p: "products resp =
         map format_product (filter (price_in_range (minPrice priced_query) (maxPrice priced_query))
           [with_TotalCount 3 protein_powder, with_TotalCount 3 desk_lamp,
            with_TotalCount 3 coffee_maker])"
    and c: "totalCount (pagination resp) = TotalCount (hd [with_TotalCount 3 protein_powder,
            with_TotalCount 3 desk_lamp, with_TotalCount 3 coffee_maker])"
    and t: "totalPages (pagination resp) =
         Math_ceil (js_divide (TotalCount (hd [with_TotalCount 3 protein_powder,
            with_TotalCount 3 desk_lamp, with_TotalCount 3 coffee_maker])) (query_pageSize priced_query))"
    by blast
  have "products resp = [format_product (with_TotalCount 3 desk_lamp)]"
    using p
    by (simp add: priced_query_def price_in_range_def with_TotalCount_def protein_powder_def
          desk_lamp_def coffee_maker_def)
  moreover have "totalCount (pagination resp) = 3"
    using c by (simp add: with_TotalCount_def)
  moreover have "totalPages (pagination resp) = Finite 1"
    using t
    by (simp add: with_TotalCount_def priced_query_def query_pageSize_def js_divide_def
          ceiling_eq_iff)
  moreover have "r_price (format_product (with_TotalCount 3 desk_lamp)) = 7999 / 100"
    by (simp add: format_product_def with_TotalCount_def desk_lamp_def)
  ultimately show ?thesis
    using r sample_priced_page by (simp add: priced_query_def)
qed

text \<open>
  C2: for an existing product and any partial update body, \<open>updateProduct\<close> issues, after
  the existence read, one \<open>UpdateProduct\<close> call carrying the merged input: a name, price or
  category present in the partial is sent as given and an absent one is sent with the
  existing value; a description present and non-empty is sent as given, an explicit empty
  string is sent as null, an omitted description is sent with the existing value, so the
  empty string and the omission are sent differently exactly when the existing description
  is not null.
\<close>

theorem updateProduct_merge:
  assumes "run_GetProductById st i (db w) = (Inr (Some (existing # rest)), s1)"
  shows "snd (updateProduct st i d w) =
           \<lparr>db = snd (run_UpdateProduct st (merge_update i existing d) s1),
            calls = calls w @ [Call_GetProductById i,
                               Call_UpdateProduct (merge_update i existing d)]\<rparr>
     \<and> upd_Id (merge_update i existing d) = i
     \<and> (\<forall>n. dto_name d = Some n \<longrightarrow> upd_Name (merge_update i existing d) = n)
     \<and> (dto_name d = None \<longrightarrow> upd_Name (merge_update i existing d) = name existing)
     \<and> (\<forall>p. dto_price d = Some p \<longrightarrow> upd_Price (merge_update i existing d) = p)
     \<and> (dto_price d = None \<longrightarrow> upd_Price (merge_update i existing d) = price existing)
     \<and> (\<forall>c. dto_category d = Some c \<longrightarrow> upd_Category (merge_update i existing d) = c)
     \<and> (dto_category d = None \<longrightarrow> upd_Category (merge_update i existing d) = category existing)
     \<and> (\<forall>s. dto_description d = Some s \<longrightarrow> s \<noteq> [] \<longrightarrow>
            upd_Description (merge_update i existing d) = Some s)
     \<and> (dto_description d = Some [] \<longrightarrow> upd_Description (merge_update i existing d) = None)
     \<and> (dto_description d = None \<longrightarrow>
            upd_Description (merge_update i existing d) = description existing)
     \<and> (merge_update i existing (d\<lparr>dto_description := Some []\<rparr>) =
          merge_update i existing (d\<lparr>dto_description := None\<rparr>) \<longleftrightarrow> description existing = None)"
proof -
  have "snd (updateProduct st i d w) =
           \<lparr>db = snd (run_UpdateProduct st (merge_update i existing d) s1),
            calls = calls w @ [Call_GetProductById i,
                               Call_UpdateProduct (merge_update i existing d)]\<rparr>"
    using assms
    by (simp add: updateProduct_def getProductById_found Let_def executeStoredProcedure_def
             split: prod.splits sum.splits)
  moreover have "merge_update i existing (d\<lparr>dto_description := Some []\<rparr>) =
          merge_update i existing (d\<lparr>dto_description := None\<rparr>) \<longleftrightarrow> description existing = None"
    by (auto simp: merge_update_def)
  ultimately show ?thesis
    by (simp add: merge_update_def)
qed

lemma sample_read_desk_lamp:
  "run_GetProductById sample_store 6 (db sample_world) = (Inr (Some [desk_lamp]), sample_products)"
  by (simp add: sample_defs)

theorem updateProduct_merge_witness:
  "run_GetProductById sample_store 6 (db sample_world) = (Inr (Some [desk_lamp]), sample_products)
   \<and> calls (snd (updateProduct sample_store 6 price_only sample_world)) =
       [Call_GetProductById 6, Call_UpdateProduct (merge_update 6 desk_lamp price_only)]
   \<and> upd_Name (merge_update 6 desk_lamp price_only) = ''Desk Lamp LED''
   \<and> upd_Description (merge_update 6 desk_lamp price_only) =
       Some ''Modern LED desk lamp with adjustable brightness and USB charging port''
   \<and> upd_Price (merge_update 6 desk_lamp price_only) = 14999 / 100
   \<and> upd_Category (merge_update 6 desk_lamp price_only) = ''Furniture''
   \<and> fst (updateProduct sample_store 6 price_only sample_world) =
       Inr (desk_lamp\<lparr>price := 14999 / 100, updatedAt := Date 5000\<rparr>)
   \<and> upd_Name (merge_update 6 desk_lamp rename_and_clear) = ''Desk Lamp''
   \<and> upd_Description (merge_update 6 desk_lamp rename_and_clear) = None
   \<and> upd_Price (merge_update 6 desk_lamp rename_and_clear) = 7999 / 100
   \<and> upd_Category (merge_update 6 desk_lamp rename_and_clear) = ''Lighting''
   \<and> upd_Description (merge_update 6 desk_lamp describe_only) = Some ''Dimmable''
   \<and> merge_update 6 desk_lamp (price_only\<lparr>dto_description := Some []\<rparr>) \<noteq>
       merge_update 6 desk_lamp (price_only\<lparr>dto_description := None\<rparr>)"
proof -
  note a = updateProduct_merge [OF sample_read_desk_lamp, of price_only]
  note b = updateProduct_merge [OF sample_read_desk_lamp, of rename_and_clear]
  note c = updateProduct_merge [OF sample_read_desk_lamp, of describe_only]
  have pa: "dto_name price_only = None" "dto_description price_only = None"
    "dto_price price_only = Some (14999 / 100)" "dto_category price_only = None"
    by (simp_all add: price_only_def)
  have pb: "dto_name rename_and_clear = Some ''Desk Lamp''"
    "dto_description rename_and_clear = Some []"
    "dto_price rename_and_clear = None" "dto_category rename_and_clear = Some ''Lighting''"
    by (simp_all add: rename_and_clear_def)
  have pc: "dto_description describe_only = Some ''Dimmable''" "''Dimmable'' \<noteq> []"
    by (simp_all add: describe_only_def)
  have dl: "name desk_lamp = ''Desk Lamp LED''" "price desk_lamp = 7999 / 100"
    "category desk_lamp = ''Furniture''"
    "description desk_lamp =
       Some ''Modern LED desk lamp with adjustable brightness and USB charging port''"
    by (simp_all add: desk_lamp_def)
  from a have "calls (snd (updateProduct sample_store 6 price_only sample_world)) =
       [Call_GetProductById 6, Call_UpdateProduct (merge_update 6 desk_lamp price_only)]"
    by (simp add: sample_world_def)
  moreover from a pa have "upd_Name (merge_update 6 desk_lamp price_only) = name desk_lamp"
    and "upd_Description (merge_update 6 desk_lamp price_only) = description desk_lamp"
    and "upd_Price (merge_update 6 desk_lamp price_only) = 14999 / 100"
    and "upd_Category (merge_update 6 desk_lamp price_only) = category desk_lamp"
    by blast+
  moreover have "fst (updateProduct sample_store 6 price_only sample_world) =
       Inr (desk_lamp\<lparr>price := 14999 / 100, updatedAt := Date 5000\<rparr>)"
    by (simp add: updateProduct_def getProductById_found [OF sample_read_desk_lamp] Let_def
          executeStoredProcedure_def merge_update_def price_only_def)
       (simp add: sample_defs)
  moreover from b pb have "upd_Name (merge_update 6 desk_lamp rename_and_clear) = ''Desk Lamp''"
    and "upd_Description (merge_update 6 desk_lamp rename_and_clear) = None"
    and "upd_Price (merge_update 6 desk_lamp rename_and_clear) = price desk_lamp"
    and "upd_Category (merge_update 6 desk_lamp rename_and_clear) = ''Lighting''"
    by blast+
  moreover from c pc
  have "upd_Description (merge_update 6 desk_lamp describe_only) = Some ''Dimmable''"
    by blast
  moreover from a dl
  have "merge_update 6 desk_lamp (price_only\<lparr>dto_description := Some []\<rparr>) \<noteq>
       merge_update 6 desk_lamp (price_only\<lparr>dto_description := None\<rparr>)"
    by simp
  ultimately show ?thesis
    using sample_read_desk_lamp dl by simp
qed

text \<open>
  C5: when the existence read returns no product, \<open>updateProduct\<close> and \<open>deleteProduct\<close>
  fail with the 404 error \<open>PRODUCT_NOT_FOUND\<close>; the only call issued is the read, and the
  database is in the state the read left it in: no \<open>UpdateProduct\<close> or \<open>DeleteProduct\<close>
  call is made.
\<close>

theorem update_delete_not_found:
  assumes "run_GetProductById st i (db w) = (Inr recordset, s1)"
      and "no_rows recordset"
  shows "updateProduct st i d w =
           (Inl (AppError ''Product not found'' 404 ''PRODUCT_NOT_FOUND''
                  ''product.service.ts:205''),
            \<lparr>db = s1, calls = calls w @ [Call_GetProductById i]\<rparr>)
       \<and> deleteProduct st i w =
           (Inl (AppError ''Product not found'' 404 ''PRODUCT_NOT_FOUND''
                  ''product.service.ts:272''),
            \<lparr>db = s1, calls = calls w @ [Call_GetProductById i]\<rparr>)"
  using assms
  by (simp add: updateProduct_def deleteProduct_def getProductById_absent
        update_catch_def delete_catch_def new_AppError_def)

lemma sample_read_absent:
  "run_GetProductById sample_store 999 (db sample_world) = (Inr (Some []), sample_products)"
  by (simp add: sample_defs)

theorem update_delete_not_found_witness:
  "run_GetProductById sample_store 999 (db sample_world) = (Inr (Some []), sample_products)
   \<and> no_rows (Some ([] :: Product list))
   \<and> updateProduct sample_store 999 price_only sample_world =
       (Inl (AppError ''Product not found'' 404 ''PRODUCT_NOT_FOUND''
              ''product.service.ts:205''),
        \<lparr>db = sample_products, calls = [Call_GetProductById 999]\<rparr>)
   \<and> deleteProduct sample_store 999 sample_world =
       (Inl (AppError ''Product not found'' 404 ''PRODUCT_NOT_FOUND''
              ''product.service.ts:272''),
        \<lparr>db = sample_products, calls = [Call_GetProductById 999]\<rparr>)"
  using update_delete_not_found [OF sample_read_absent, of price_only] sample_read_absent
  by (simp add: sample_world_def)

section \<open>Properties of the authentication gate and the auth service\<close>

lemma split_not_Nil [simp]: "split sep s \<noteq> []"
  by (induction s) (auto split: list.splits)

lemma split_no_sep: "sep \<notin> set s \<Longrightarrow> split sep s = [s]"
  by (induction s) auto

lemma split_length_one: "length (split sep s) = Suc 0 \<Longrightarrow> sep \<notin> set s"
  by (induction s) (auto split: list.splits if_splits)

lemma split_two:
  "split sep s = [a, b] \<Longrightarrow> s = a @ sep # b \<and> sep \<notin> set a \<and> sep \<notin> set b"
proof (induction s arbitrary: a)
  case Nil
  then show ?case by simp
next
  case (Cons c cs)
  show ?case
  proof (cases "c = sep")
    case True
    with Cons.prems have "a = []" and one: "split sep cs = [b]" by auto
    from one have "sep \<notin> set cs" by (simp add: split_length_one)
    with one have "cs = b" by (simp add: split_no_sep)
    with True \<open>a = []\<close> \<open>sep \<notin> set cs\<close> show ?thesis by simp
  next
    case False
    with Cons.prems obtain part where "split sep cs = [part, b]" and "a = c # part"
      by (auto split: list.splits)
    with Cons.IH [of part] False show ?thesis by simp
  qed
qed

lemma split_Bearer: "split CHR '' '' (''Bearer '' @ tok) = ''Bearer'' # split CHR '' '' tok"
  by (simp split: list.splits)

lemma split_two_Bearer:
  "length (split CHR '' '' h) = 2 \<and> split CHR '' '' h ! 0 = ''Bearer'' \<longleftrightarrow>
     (\<exists>tok. h = ''Bearer '' @ tok \<and> CHR '' '' \<notin> set tok)"
proof
  assume "length (split CHR '' '' h) = 2 \<and> split CHR '' '' h ! 0 = ''Bearer''"
  then obtain b where "split CHR '' '' h = [''Bearer'', b]"
    by (cases "split CHR '' '' h"; cases "tl (split CHR '' '' h)") auto
  from split_two [OF this] show "\<exists>tok. h = ''Bearer '' @ tok \<and> CHR '' '' \<notin> set tok"
    by auto
next
  assume "\<exists>tok. h = ''Bearer '' @ tok \<and> CHR '' '' \<notin> set tok"
  then obtain tok where "h = ''Bearer '' @ tok" "CHR '' '' \<notin> set tok" by blast
  then show "length (split CHR '' '' h) = 2 \<and> split CHR '' '' h ! 0 = ''Bearer''"
    using split_Bearer [of tok] by (simp add: split_no_sep)
qed


lemma authenticate_missing:
  "\<not> truthy (header_authorization req) \<Longrightarrow>
   authenticate lib cfg st req w =
     (auth_failure ''Authorization header missing'' ''Access token is required'', w)"
  by (simp add: authenticate_def)

lemma authenticate_malformed:
  assumes "header_authorization req = Some h" and "h \<noteq> []"
      and "\<not> (\<exists>tok. h = ''Bearer '' @ tok \<and> CHR '' '' \<notin> set tok)"
  shows "authenticate lib cfg st req w =
     (auth_failure ''Invalid authorization format''
        ''Authorization header must be in format: Bearer <token>'', w)"
proof -
  from assms(3) have "length (split CHR '' '' h) \<noteq> 2 \<or> split CHR '' '' h ! 0 \<noteq> ''Bearer''"
    using split_two_Bearer [of h] by blast
  with assms(1,2) show ?thesis
    by (simp add: authenticate_def Let_def)
qed

lemma authenticate_wellformed:
  assumes "header_authorization req = Some (''Bearer '' @ tok)" and "CHR '' '' \<notin> set tok"
  shows "authenticate lib cfg st req w =
     (if tok = [] then (auth_failure ''Invalid token'' ''Token cannot be empty'', w)
      else case verifyToken lib cfg tok of
             Inl e \<Rightarrow> (authenticate_catch e, w)
           | Inr decoded \<Rightarrow>
               (case getUserById st (userId decoded) w of
                  (None, w1) \<Rightarrow>
                    (auth_failure ''User not found''
                       ''The user associated with this token no longer exists'', w1)
                | (Some user, w1) \<Rightarrow> (Next (req\<lparr>req_user := Some decoded\<rparr>), w1)))"
proof -
  have "split CHR '' '' (''Bearer '' @ tok) = [''Bearer'', tok]"
    using assms(2) by (simp add: split_no_sep)
  with assms(1) show ?thesis
    by (simp add: authenticate_def Let_def del: split.simps)
qed

lemma authenticate_catch_401: "\<exists>body. authenticate_catch e = Responded 401 body"
  by (simp add: authenticate_catch_def auth_failure_def Let_def)

lemma authenticate_cases:
  "(\<exists>body. fst (authenticate lib cfg st req w) = Responded 401 body) \<or>
   (\<exists>tok decoded u. header_authorization req = Some (''Bearer '' @ tok) \<and> tok \<noteq> []
       \<and> CHR '' '' \<notin> set tok \<and> verifyToken lib cfg tok = Inr decoded
       \<and> fst (getUserById st (userId decoded) w) = Some u
       \<and> fst (authenticate lib cfg st req w) = Next (req\<lparr>req_user := Some decoded\<rparr>))"
proof (cases "truthy (header_authorization req)")
  case False
  then show ?thesis by (simp add: authenticate_missing auth_failure_def)
next
  case True
  then obtain h where h: "header_authorization req = Some h" "h \<noteq> []"
    by (cases "header_authorization req") auto
  show ?thesis
  proof (cases "\<exists>tok. h = ''Bearer '' @ tok \<and> CHR '' '' \<notin> set tok")
    case False
    with h show ?thesis by (simp add: authenticate_malformed auth_failure_def)
  next
    case True
    then obtain tok where tok: "h = ''Bearer '' @ tok" "CHR '' '' \<notin> set tok" by blast
    with h have hdr: "header_authorization req = Some (''Bearer '' @ tok)" by simp
    note wf = authenticate_wellformed [OF hdr tok(2), of lib cfg st w]
    show ?thesis
    proof (cases "tok = []")
      case True
      with wf show ?thesis by (simp add: auth_failure_def)
    next
      case False
      show ?thesis
      proof (cases "verifyToken lib cfg tok")
        case (Inl e)
        with wf False authenticate_catch_401 [of e] show ?thesis by auto
      next
        case (Inr decoded)
        show ?thesis
        proof (cases "getUserById st (userId decoded) w")
          case (Pair u w1)
          with wf False Inr hdr tok(2) show ?thesis
            by (cases u) (auto simp: auth_failure_def)
        qed
      qed
    qed
  qed
qed

text \<open>
  C1: in required mode every outcome but the authenticated one is a 401 response, and
  \<open>next()\<close> is called only for a header \<open>Bearer <token>\<close> whose token verifies and whose
  user exists. A missing (or empty) header, a header that is not \<open>Bearer\<close>, one space and a
  token without spaces, an empty token, a token that fails verification and a verified
  token whose user is gone are each answered with 401; the message for the missing header
  differs from the one for the malformed header.
\<close>

theorem authenticate_required:
  "(\<not> truthy (header_authorization req) \<longrightarrow>
      fst (authenticate lib cfg st req w) =
        auth_failure ''Authorization header missing'' ''Access token is required'')
   \<and> (\<forall>h. header_authorization req = Some h \<and> h \<noteq> []
          \<and> \<not> (\<exists>tok. h = ''Bearer '' @ tok \<and> CHR '' '' \<notin> set tok) \<longrightarrow>
        fst (authenticate lib cfg st req w) =
          auth_failure ''Invalid authorization format''
            ''Authorization header must be in format: Bearer <token>'')
   \<and> (header_authorization req = Some ''Bearer '' \<longrightarrow>
        fst (authenticate lib cfg st req w) =
          auth_failure ''Invalid token'' ''Token cannot be empty'')
   \<and> (\<forall>tok e. header_authorization req = Some (''Bearer '' @ tok)
          \<and> verifyToken lib cfg tok = Inl e \<longrightarrow>
        (\<exists>body. fst (authenticate lib cfg st req w) = Responded 401 body))
   \<and> (\<forall>tok decoded. header_authorization req = Some (''Bearer '' @ tok) \<and> tok \<noteq> []
          \<and> CHR '' '' \<notin> set tok \<and> verifyToken lib cfg tok = Inr decoded
          \<and> fst (getUserById st (userId decoded) w) = None \<longrightarrow>
        fst (authenticate lib cfg st req w) =
          auth_failure ''User not found''
            ''The user associated with this token no longer exists'')
   \<and> (\<forall>err msg. auth_failure err msg =
          Responded 401 (JObject [(''error'', JString err), (''message'', JString msg)]))
   \<and> auth_failure ''Authorization header missing'' ''Access token is required'' \<noteq>
       auth_failure ''Invalid authorization format''
         ''Authorization header must be in format: Bearer <token>''
   \<and> (\<forall>status body. fst (authenticate lib cfg st req w) = Responded status body \<longrightarrow>
          status = 401)
   \<and> (\<forall>r. fst (authenticate lib cfg st req w) = Next r \<longrightarrow>
        (\<exists>tok decoded u. header_authorization req = Some (''Bearer '' @ tok) \<and> tok \<noteq> []
           \<and> CHR '' '' \<notin> set tok \<and> verifyToken lib cfg tok = Inr decoded
           \<and> fst (getUserById st (userId decoded) w) = Some u
           \<and> r = req\<lparr>req_user := Some decoded\<rparr>))"
proof (intro conjI allI impI)
  assume "\<not> truthy (header_authorization req)"
  then show "fst (authenticate lib cfg st req w) =
        auth_failure ''Authorization header missing'' ''Access token is required''"
    by (simp add: authenticate_missing)
next
  fix h
  assume "header_authorization req = Some h \<and> h \<noteq> []
          \<and> \<not> (\<exists>tok. h = ''Bearer '' @ tok \<and> CHR '' '' \<notin> set tok)"
  then show "fst (authenticate lib cfg st req w) =
          auth_failure ''Invalid authorization format''
            ''Authorization header must be in format: Bearer <token>''"
    by (simp add: authenticate_malformed)
next
  assume "header_authorization req = Some ''Bearer ''"
  then have "header_authorization req = Some (''Bearer '' @ [])" by simp
  from authenticate_wellformed [OF this, of lib cfg st w]
  show "fst (authenticate lib cfg st req w) =
          auth_failure ''Invalid token'' ''Token cannot be empty''"
    by simp
next
  fix tok e
  assume a: "header_authorization req = Some (''Bearer '' @ tok) \<and> verifyToken lib cfg tok = Inl e"
  from authenticate_cases [of lib cfg st req w]
  show "\<exists>body. fst (authenticate lib cfg st req w) = Responded 401 body"
  proof
    assume "\<exists>body. fst (authenticate lib cfg st req w) = Responded 401 body"
    then show ?thesis .
  next
    assume "\<exists>tok decoded u. header_authorization req = Some (''Bearer '' @ tok) \<and> tok \<noteq> []
       \<and> CHR '' '' \<notin> set tok \<and> verifyToken lib cfg tok = Inr decoded
       \<and> fst (getUserById st (userId decoded) w) = Some u
       \<and> fst (authenticate lib cfg st req w) = Next (req\<lparr>req_user := Some decoded\<rparr>)"
    with a show ?thesis by auto
  qed
next
  fix tok decoded
  assume a: "header_authorization req = Some (''Bearer '' @ tok) \<and> tok \<noteq> []
          \<and> CHR '' '' \<notin> set tok \<and> verifyToken lib cfg tok = Inr decoded
          \<and> fst (getUserById st (userId decoded) w) = None"
  then have hdr: "header_authorization req = Some (''Bearer '' @ tok)"
    and ns: "CHR '' '' \<notin> set tok" by simp_all
  from authenticate_wellformed [OF hdr ns, of lib cfg st w] a
  show "fst (authenticate lib cfg st req w) =
          auth_failure ''User not found''
            ''The user associated with this token no longer exists''"
    by (cases "getUserById st (userId decoded) w") auto
next
  fix err msg
  show "auth_failure err msg =
          Responded 401 (JObject [(''error'', JString err), (''message'', JString msg)])"
    by (simp add: auth_failure_def)
next
  show "auth_failure ''Authorization header missing'' ''Access token is required'' \<noteq>
       auth_failure ''Invalid authorization format''
         ''Authorization header must be in format: Bearer <token>''"
    by (simp add: auth_failure_def)
next
  fix status body
  assume "fst (authenticate lib cfg st req w) = Responded status body"
  with authenticate_cases [of lib cfg st req w] show "status = 401" by auto
next
  fix r
  assume "fst (authenticate lib cfg st req w) = Next r"
  with authenticate_cases [of lib cfg st req w]
  show "\<exists>tok decoded u. header_authorization req = Some (''Bearer '' @ tok) \<and> tok \<noteq> []
           \<and> CHR '' '' \<notin> set tok \<and> verifyToken lib cfg tok = Inr decoded
           \<and> fst (getUserById st (userId decoded) w) = Some u
           \<and> r = req\<lparr>req_user := Some decoded\<rparr>"
    by auto
qed


lemmas sample_auth_defs =
  sample_crypto_def sample_config_def sample_user_store_def sample_user_world_def
  admin_user_def sample_payload_def orphan_payload_def request_with_def bearer_request_def
  sql_user_store_def sql_CreateUser_def sql_GetUserByUsername_def sql_UserById_def
  without_hash_def next_identity_def header_authorization_def

lemma sample_verify_valid: "verifyToken sample_crypto sample_config ''valid-token'' = Inr sample_payload"
  by (simp add: verifyToken_def sample_crypto_def)

lemma sample_verify_orphan: "verifyToken sample_crypto sample_config ''orphan-token'' = Inr orphan_payload"
  by (simp add: verifyToken_def sample_crypto_def)

lemma sample_verify_expired:
  "verifyToken sample_crypto sample_config ''expired-token'' = Inl (JsError ''Error'' ''Token expired'' ''auth.service.ts:147'')"
  by (simp add: verifyToken_def sample_crypto_def new_Error_def)

lemma sample_verify_invalid:
  "verifyToken sample_crypto sample_config ''invalid-token'' = Inl (JsError ''Error'' ''Invalid token'' ''auth.service.ts:149'')"
  by (simp add: verifyToken_def sample_crypto_def new_Error_def)

lemma sample_user_1:
  "fst (getUserById sample_user_store 1 sample_user_world) = Some (without_hash admin_user)"
  by (simp add: getUserById_def executeQuery_def sample_auth_defs)

lemma sample_user_42: "fst (getUserById sample_user_store 42 sample_user_world) = None"
  by (simp add: getUserById_def executeQuery_def sample_auth_defs)

lemma sample_header: "header_authorization (bearer_request h) = Some h"
  by (simp add: sample_auth_defs)

lemma sample_no_header: "header_authorization (request_with []) = None"
  by (simp add: sample_auth_defs)

theorem authenticate_required_witness:
  "\<not> truthy (header_authorization (request_with []))
   \<and> fst (authenticate sample_crypto sample_config sample_user_store (request_with [])
            sample_user_world) =
       Responded 401 (JObject [(''error'', JString ''Authorization header missing''),
                               (''message'', JString ''Access token is required'')])
   \<and> header_authorization (bearer_request ''Token abc'') = Some ''Token abc''
   \<and> fst (authenticate sample_crypto sample_config sample_user_store
            (bearer_request ''Token abc'') sample_user_world) =
       Responded 401 (JObject [(''error'', JString ''Invalid authorization format''),
          (''message'', JString ''Authorization header must be in format: Bearer <token>'')])
   \<and> fst (authenticate sample_crypto sample_config sample_user_store
            (bearer_request ''Bearer '') sample_user_world) =
       Responded 401 (JObject [(''error'', JString ''Invalid token''),
                               (''message'', JString ''Token cannot be empty'')])
   \<and> verifyToken sample_crypto sample_config ''expired-token'' =
       Inl (JsError ''Error'' ''Token expired'' ''auth.service.ts:147'')
   \<and> fst (authenticate sample_crypto sample_config sample_user_store
            (bearer_request ''Bearer expired-token'') sample_user_world) =
       Responded 401 (JObject [(''error'', JString ''Authentication failed''),
                               (''message'', JString ''Token has expired'')])
   \<and> verifyToken sample_crypto sample_config ''orphan-token'' = Inr orphan_payload
   \<and> fst (getUserById sample_user_store (userId orphan_payload) sample_user_world) = None
   \<and> fst (authenticate sample_crypto sample_config sample_user_store
            (bearer_request ''Bearer orphan-token'') sample_user_world) =
       Responded 401 (JObject [(''error'', JString ''User not found''),
          (''message'', JString ''The user associated with this token no longer exists'')])
   \<and> fst (authenticate sample_crypto sample_config sample_user_store
            (bearer_request ''Bearer valid-token'') sample_user_world) =
       Next ((bearer_request ''Bearer valid-token'')\<lparr>req_user := Some sample_payload\<rparr>)"
proof -
  let ?auth = "\<lambda>req. fst (authenticate sample_crypto sample_config sample_user_store req
                          sample_user_world)"
  note missing = authenticate_required [where req = "request_with []" and lib = sample_crypto
      and cfg = sample_config and st = sample_user_store and w = sample_user_world]
  note malformed = authenticate_required [where req = "bearer_request ''Token abc''"
      and lib = sample_crypto and cfg = sample_config and st = sample_user_store
      and w = sample_user_world]
  note empty = authenticate_required [where req = "bearer_request ''Bearer ''"
      and lib = sample_crypto and cfg = sample_config and st = sample_user_store
      and w = sample_user_world]
  note expired = authenticate_required [where req = "bearer_request ''Bearer expired-token''"
      and lib = sample_crypto and cfg = sample_config and st = sample_user_store
      and w = sample_user_world]
  note orphan = authenticate_required [where req = "bearer_request ''Bearer orphan-token''"
      and lib = sample_crypto and cfg = sample_config and st = sample_user_store
      and w = sample_user_world]
  note valid = authenticate_required [where req = "bearer_request ''Bearer valid-token''"
      and lib = sample_crypto and cfg = sample_config and st = sample_user_store
      and w = sample_user_world]
  have shape: "\<And>err msg. auth_failure err msg =
          Responded 401 (JObject [(''error'', JString err), (''message'', JString msg)])"
    using missing by blast
  have h0: "\<not> truthy (header_authorization (request_with []))"
    by (simp add: sample_no_header)
  with missing have c0: "?auth (request_with []) =
      auth_failure ''Authorization header missing'' ''Access token is required''"
    by blast
  have h1: "header_authorization (bearer_request ''Token abc'') = Some ''Token abc''
      \<and> ''Token abc'' \<noteq> []
      \<and> \<not> (\<exists>tok. ''Token abc'' = ''Bearer '' @ tok \<and> CHR '' '' \<notin> set tok)"
    by (simp add: sample_header)
  with malformed have c1: "?auth (bearer_request ''Token abc'') =
      auth_failure ''Invalid authorization format''
        ''Authorization header must be in format: Bearer <token>''"
    by blast
  have h2: "header_authorization (bearer_request ''Bearer '') = Some ''Bearer ''"
    by (simp add: sample_header)
  with empty have c2: "?auth (bearer_request ''Bearer '') =
      auth_failure ''Invalid token'' ''Token cannot be empty''"
    by blast
  have c3: "?auth (bearer_request ''Bearer expired-token'') =
       Responded 401 (JObject [(''error'', JString ''Authentication failed''),
                               (''message'', JString ''Token has expired'')])"
    using expired
    by (simp add: authenticate_def sample_header Let_def sample_verify_expired
          authenticate_catch_def auth_failure_def)
  have h4: "header_authorization (bearer_request ''Bearer orphan-token'') =
        Some (''Bearer '' @ ''orphan-token'')
      \<and> ''orphan-token'' \<noteq> [] \<and> CHR '' '' \<notin> set ''orphan-token''
      \<and> verifyToken sample_crypto sample_config ''orphan-token'' = Inr orphan_payload
      \<and> fst (getUserById sample_user_store (userId orphan_payload) sample_user_world) = None"
    using sample_user_42 by (simp add: sample_header sample_verify_orphan orphan_payload_def)
  with orphan have c4: "?auth (bearer_request ''Bearer orphan-token'') =
      auth_failure ''User not found'' ''The user associated with this token no longer exists''"
    by blast
  have c5: "?auth (bearer_request ''Bearer valid-token'') =
       Next ((bearer_request ''Bearer valid-token'')\<lparr>req_user := Some sample_payload\<rparr>)"
    using valid sample_user_1
    by (simp add: authenticate_def sample_header Let_def sample_verify_valid
          sample_payload_def split: prod.splits option.splits)
  show ?thesis
    using h0 c0 h1 c1 c2 c3 h4 c4 c5 sample_verify_expired
    by (simp add: shape)
qed









lemma optionalAuthenticate_malformed:
  assumes "header_authorization req = Some h"
      and "\<not> (\<exists>tok. h = ''Bearer '' @ tok \<and> CHR '' '' \<notin> set tok)"
  shows "optionalAuthenticate lib cfg req = Next req"
proof -
  from assms(2) have "\<not> (length (split CHR '' '' h) = 2 \<and> split CHR '' '' h ! 0 = ''Bearer'')"
    using split_two_Bearer [of h] by blast
  with assms(1) show ?thesis
    by (auto simp: optionalAuthenticate_def Let_def)
qed

lemma optionalAuthenticate_wellformed:
  assumes "header_authorization req = Some (''Bearer '' @ tok)" and "CHR '' '' \<notin> set tok"
  shows "optionalAuthenticate lib cfg req =
     (if tok \<noteq> [] then
        (case verifyToken lib cfg tok of
           Inl e \<Rightarrow> Next req
         | Inr decoded \<Rightarrow> Next (req\<lparr>req_user := Some decoded\<rparr>))
      else Next req)"
proof -
  have "split CHR '' '' (''Bearer '' @ tok) = [''Bearer'', tok]"
    using assms(2) by (simp add: split_no_sep)
  with assms(1) show ?thesis
    by (simp add: optionalAuthenticate_def Let_def del: split.simps)
qed

lemma optionalAuthenticate_cases:
  "optionalAuthenticate lib cfg req = Next req \<or>
   (\<exists>tok decoded. header_authorization req = Some (''Bearer '' @ tok) \<and> tok \<noteq> []
      \<and> CHR '' '' \<notin> set tok \<and> verifyToken lib cfg tok = Inr decoded
      \<and> optionalAuthenticate lib cfg req = Next (req\<lparr>req_user := Some decoded\<rparr>))"
proof (cases "header_authorization req")
  case None
  then show ?thesis by (simp add: optionalAuthenticate_def)
next
  case (Some h)
  show ?thesis
  proof (cases "\<exists>tok. h = ''Bearer '' @ tok \<and> CHR '' '' \<notin> set tok")
    case False
    with Some show ?thesis by (simp add: optionalAuthenticate_malformed)
  next
    case True
    then obtain tok where tok: "h = ''Bearer '' @ tok" "CHR '' '' \<notin> set tok" by blast
    with Some have hdr: "header_authorization req = Some (''Bearer '' @ tok)" by simp
    note wf = optionalAuthenticate_wellformed [OF hdr tok(2), of lib cfg]
    show ?thesis
    proof (cases "verifyToken lib cfg tok")
      case (Inl e)
      with wf show ?thesis by simp
    next
      case (Inr decoded)
      with wf hdr tok(2) show ?thesis by (cases "tok = []") auto
    qed
  qed
qed

text \<open>
  C7: in optional mode the middleware never sends a response and always calls \<open>next()\<close>:
  without a header the request passes unchanged, and when the token of a bearer header
  fails verification, whatever the failure, the request passes unchanged and
  unauthenticated; only a token that verifies attaches the user.
\<close>

theorem optionalAuthenticate_never_rejects:
  "(\<forall>status body. optionalAuthenticate lib cfg req \<noteq> Responded status body)
   \<and> (\<exists>r. optionalAuthenticate lib cfg req = Next r)
   \<and> (\<not> truthy (header_authorization req) \<longrightarrow> optionalAuthenticate lib cfg req = Next req)
   \<and> (\<forall>tok e. header_authorization req = Some (''Bearer '' @ tok)
         \<and> verifyToken lib cfg tok = Inl e \<longrightarrow>
       optionalAuthenticate lib cfg req = Next req)
   \<and> (\<forall>tok decoded. header_authorization req = Some (''Bearer '' @ tok) \<and> tok \<noteq> []
         \<and> CHR '' '' \<notin> set tok \<and> verifyToken lib cfg tok = Inr decoded \<longrightarrow>
       optionalAuthenticate lib cfg req = Next (req\<lparr>req_user := Some decoded\<rparr>))"
proof (intro conjI allI impI)
  fix status body
  from optionalAuthenticate_cases [of lib cfg req]
  show "optionalAuthenticate lib cfg req \<noteq> Responded status body" by auto
next
  from optionalAuthenticate_cases [of lib cfg req]
  show "\<exists>r. optionalAuthenticate lib cfg req = Next r" by auto
next
  assume "\<not> truthy (header_authorization req)"
  then show "optionalAuthenticate lib cfg req = Next req"
    by (simp add: optionalAuthenticate_def)
next
  fix tok e
  assume a: "header_authorization req = Some (''Bearer '' @ tok) \<and> verifyToken lib cfg tok = Inl e"
  from optionalAuthenticate_cases [of lib cfg req]
  show "optionalAuthenticate lib cfg req = Next req"
  proof
    assume "optionalAuthenticate lib cfg req = Next req"
    then show ?thesis .
  next
    assume "\<exists>tok decoded. header_authorization req = Some (''Bearer '' @ tok) \<and> tok \<noteq> []
      \<and> CHR '' '' \<notin> set tok \<and> verifyToken lib cfg tok = Inr decoded
      \<and> optionalAuthenticate lib cfg req = Next (req\<lparr>req_user := Some decoded\<rparr>)"
    with a show ?thesis by auto
  qed
next
  fix tok decoded
  assume a: "header_authorization req = Some (''Bearer '' @ tok) \<and> tok \<noteq> []
         \<and> CHR '' '' \<notin> set tok \<and> verifyToken lib cfg tok = Inr decoded"
  then have hdr: "header_authorization req = Some (''Bearer '' @ tok)"
    and ns: "CHR '' '' \<notin> set tok" by simp_all
  from optionalAuthenticate_wellformed [OF hdr ns, of lib cfg] a
  show "optionalAuthenticate lib cfg req = Next (req\<lparr>req_user := Some decoded\<rparr>)"
    by simp
qed

theorem optionalAuthenticate_never_rejects_witness:
  "\<not> truthy (header_authorization (request_with []))
   \<and> optionalAuthenticate sample_crypto sample_config (request_with []) = Next (request_with [])
   \<and> header_authorization (bearer_request ''Bearer expired-token'') =
       Some (''Bearer '' @ ''expired-token'')
   \<and> verifyToken sample_crypto sample_config ''expired-token'' =
       Inl (JsError ''Error'' ''Token expired'' ''auth.service.ts:147'')
   \<and> optionalAuthenticate sample_crypto sample_config (bearer_request ''Bearer expired-token'') =
       Next (bearer_request ''Bearer expired-token'')
   \<and> verifyToken sample_crypto sample_config ''invalid-token'' =
       Inl (JsError ''Error'' ''Invalid token'' ''auth.service.ts:149'')
   \<and> optionalAuthenticate sample_crypto sample_config (bearer_request ''Bearer invalid-token'') =
       Next (bearer_request ''Bearer invalid-token'')
   \<and> verifyToken sample_crypto sample_config ''valid-token'' = Inr sample_payload
   \<and> optionalAuthenticate sample_crypto sample_config (bearer_request ''Bearer valid-token'') =
       Next ((bearer_request ''Bearer valid-token'')\<lparr>req_user := Some sample_payload\<rparr>)"
proof -
  note none = optionalAuthenticate_never_rejects [where req = "request_with []"
      and lib = sample_crypto and cfg = sample_config]
  note expired = optionalAuthenticate_never_rejects
      [where req = "bearer_request ''Bearer expired-token''"
      and lib = sample_crypto and cfg = sample_config]
  note invalid = optionalAuthenticate_never_rejects
      [where req = "bearer_request ''Bearer invalid-token''"
      and lib = sample_crypto and cfg = sample_config]
  note valid = optionalAuthenticate_never_rejects
      [where req = "bearer_request ''Bearer valid-token''"
      and lib = sample_crypto and cfg = sample_config]
  have h0: "\<not> truthy (header_authorization (request_with []))"
    by (simp add: sample_no_header)
  with none have c0: "optionalAuthenticate sample_crypto sample_config (request_with []) =
      Next (request_with [])"
    by blast
  have h1: "header_authorization (bearer_request ''Bearer expired-token'') =
       Some (''Bearer '' @ ''expired-token'')
     \<and> verifyToken sample_crypto sample_config ''expired-token'' =
       Inl (JsError ''Error'' ''Token expired'' ''auth.service.ts:147'')"
    by (simp add: sample_header sample_verify_expired)
  with expired
  have c1: "optionalAuthenticate sample_crypto sample_config
      (bearer_request ''Bearer expired-token'') = Next (bearer_request ''Bearer expired-token'')"
    by blast
  have h2: "header_authorization (bearer_request ''Bearer invalid-token'') =
       Some (''Bearer '' @ ''invalid-token'')
     \<and> verifyToken sample_crypto sample_config ''invalid-token'' =
       Inl (JsError ''Error'' ''Invalid token'' ''auth.service.ts:149'')"
    by (simp add: sample_header sample_verify_invalid)
  with invalid
  have c2: "optionalAuthenticate sample_crypto sample_config
      (bearer_request ''Bearer invalid-token'') = Next (bearer_request ''Bearer invalid-token'')"
    by blast
  have h3: "header_authorization (bearer_request ''Bearer valid-token'') =
       Some (''Bearer '' @ ''valid-token'')
     \<and> ''valid-token'' \<noteq> [] \<and> CHR '' '' \<notin> set ''valid-token''
     \<and> verifyToken sample_crypto sample_config ''valid-token'' = Inr sample_payload"
    by (simp add: sample_header sample_verify_valid)
  with valid
  have c3: "optionalAuthenticate sample_crypto sample_config
      (bearer_request ''Bearer valid-token'') =
       Next ((bearer_request ''Bearer valid-token'')\<lparr>req_user := Some sample_payload\<rparr>)"
    by blast
  from h0 c0 h1 c1 h2 c2 h3 c3 show ?thesis by simp
qed

lemma user_object_keys:
  "map fst (user_object u) = [''id'', ''username'', ''email'', ''createdAt'', ''updatedAt'']"
  by (simp add: user_object_def)

lemma register_user_object:
  "register lib cfg st userData w = (Inr resp, w') \<Longrightarrow> \<exists>u. auth_user resp = user_object u"
  by (auto simp: register_def Let_def split: sum.splits prod.splits if_splits)

lemma login_user_object:
  "login lib cfg st loginData w = (Inr resp, w') \<Longrightarrow> \<exists>u. auth_user resp = user_object u"
  by (auto simp: login_def Let_def split: sum.splits prod.splits if_splits)

text \<open>
  C9: whenever \<open>register\<close> or \<open>login\<close> succeeds, the \<open>user\<close> object of the response has
  exactly the keys \<open>id\<close>, \<open>username\<close>, \<open>email\<close>, \<open>createdAt\<close> and \<open>updatedAt\<close>; it has no
  \<open>passwordHash\<close> key, and it does not depend on the hash of the row it is built from.
\<close>

theorem auth_response_without_hash:
  "(\<forall>resp w'. register lib cfg st userData w = (Inr resp, w') \<longrightarrow>
       map fst (auth_user resp) = [''id'', ''username'', ''email'', ''createdAt'', ''updatedAt'']
       \<and> ''passwordHash'' \<notin> set (map fst (auth_user resp)))
   \<and> (\<forall>resp w'. login lib' cfg' st' loginData w2 = (Inr resp, w') \<longrightarrow>
       map fst (auth_user resp) = [''id'', ''username'', ''email'', ''createdAt'', ''updatedAt'']
       \<and> ''passwordHash'' \<notin> set (map fst (auth_user resp)))
   \<and> (\<forall>u h. user_object (u\<lparr>passwordHash := h\<rparr>) = user_object u)"
proof (intro conjI allI impI)
  fix resp w'
  assume "register lib cfg st userData w = (Inr resp, w')"
  from register_user_object [OF this] obtain u where "auth_user resp = user_object u" ..
  then show "map fst (auth_user resp) = [''id'', ''username'', ''email'', ''createdAt'', ''updatedAt'']"
    and "''passwordHash'' \<notin> set (map fst (auth_user resp))"
    by (simp_all add: user_object_keys)
next
  fix resp w'
  assume "login lib' cfg' st' loginData w2 = (Inr resp, w')"
  from login_user_object [OF this] obtain u where "auth_user resp = user_object u" ..
  then show "map fst (auth_user resp) = [''id'', ''username'', ''email'', ''createdAt'', ''updatedAt'']"
    and "''passwordHash'' \<notin> set (map fst (auth_user resp))"
    by (simp_all add: user_object_keys)
next
  fix u :: User and h
  show "user_object (u\<lparr>passwordHash := h\<rparr>) = user_object u"
    by (simp add: user_object_def)
qed

lemma sample_register:
  "register sample_crypto sample_config sample_user_store john_doe sample_user_world =
     (Inr \<lparr>auth_user =
             [(''id'', JNumber 2), (''username'', JString ''johndoe''),
              (''email'', JString ''john@example.com''),
              (''createdAt'', JDate (Date 5000)), (''updatedAt'', JDate (Date 5000))],
           token = ''mock-jwt-token'', expiresIn = ''24h''\<rparr>,
      \<lparr>db = [admin_user,
              \<lparr>user_id = 2, username = ''johndoe'', email = ''john@example.com'',
               passwordHash = Some ''hashedPassword123'',
               user_createdAt = Date 5000, user_updatedAt = Date 5000\<rparr>],
        calls = [Call_CreateUser \<lparr>Username = ''johndoe'', Email = ''john@example.com'',
                                  PasswordHash = ''hashedPassword123''\<rparr>]\<rparr>)"
  by (simp add: register_def Let_def executeStoredProcedure_def generateToken_def
        user_object_def john_doe_def sample_auth_defs)

lemma sample_login:
  "login sample_crypto sample_config sample_user_store (admin_login ''password123'')
     sample_user_world =
     (Inr \<lparr>auth_user =
             [(''id'', JNumber 1), (''username'', JString ''admin''),
              (''email'', JString ''admin@example.com''),
              (''createdAt'', JDate (Date 1000)), (''updatedAt'', JDate (Date 1000))],
           token = ''mock-jwt-token'', expiresIn = ''24h''\<rparr>,
      \<lparr>db = [admin_user], calls = [Call_GetUserByUsername ''admin'']\<rparr>)"
  by (simp add: login_def Let_def executeStoredProcedure_def generateToken_def
        user_object_def admin_login_def sample_auth_defs)

theorem auth_response_without_hash_witness:
  "fst (register sample_crypto sample_config sample_user_store john_doe sample_user_world) =
     Inr \<lparr>auth_user =
            [(''id'', JNumber 2), (''username'', JString ''johndoe''),
             (''email'', JString ''john@example.com''),
             (''createdAt'', JDate (Date 5000)), (''updatedAt'', JDate (Date 5000))],
          token = ''mock-jwt-token'', expiresIn = ''24h''\<rparr>
   \<and> fst (login sample_crypto sample_config sample_user_store (admin_login ''password123'')
          sample_user_world) =
     Inr \<lparr>auth_user =
            [(''id'', JNumber 1), (''username'', JString ''admin''),
             (''email'', JString ''admin@example.com''),
             (''createdAt'', JDate (Date 1000)), (''updatedAt'', JDate (Date 1000))],
          token = ''mock-jwt-token'', expiresIn = ''24h''\<rparr>
   \<and> passwordHash admin_user = Some ''$2b$10$YourHashedPasswordHere''
   \<and> ''passwordHash'' \<notin> set (map fst (auth_user (projr (fst (register sample_crypto
          sample_config sample_user_store john_doe sample_user_world)))))
   \<and> ''passwordHash'' \<notin> set (map fst (auth_user (projr (fst (login sample_crypto
          sample_config sample_user_store (admin_login ''password123'') sample_user_world)))))"
proof -
  note t = auth_response_without_hash [where lib = sample_crypto and cfg = sample_config
      and st = sample_user_store and userData = john_doe and w = sample_user_world
      and lib' = sample_crypto and cfg' = sample_config and st' = sample_user_store
      and loginData = "admin_login ''password123''" and ?w2.0 = sample_user_world]
  from t sample_register
  have "''passwordHash'' \<notin> set (map fst (auth_user (projr (fst (register sample_crypto
          sample_config sample_user_store john_doe sample_user_world)))))"
    by (metis fst_conv sum.sel(2))
  moreover from t sample_login
  have "''passwordHash'' \<notin> set (map fst (auth_user (projr (fst (login sample_crypto
          sample_config sample_user_store (admin_login ''password123'') sample_user_world)))))"
    by (metis fst_conv sum.sel(2))
  ultimately show ?thesis
    by (simp add: sample_register sample_login admin_user_def)
qed








section \<open>Properties of the validation\<close>


















end
